theory Spec2Isabelle
  imports Complex_Main
begin

section \<open>Numeric values, arrays and outcomes\<close>

text \<open>
  The simulator \<^verbatim>\<open>sim_hw.py\<close> computes with numpy \<^verbatim>\<open>float64\<close> arrays. A finite
  float is modelled as a \<^typ>\<open>real\<close>: rounding, overflow and underflow are idealised
  away, so every equation below is an equation of exact arithmetic. The arrays of fixed
  shape are tuples: a 3-vector, a 4-vector (a quaternion is \<^verbatim>\<open>[w x y z]\<close>), and
  matrices as tuples of rows.

  A computation has one of three outcomes. \<open>Raise e\<close>: Python raised the exception
  \<open>e\<close>. \<open>NaN\<close>: nothing was raised, but a numpy division \<^verbatim>\<open>0.0 / 0.0\<close> happened,
  which numpy answers with \<^verbatim>\<open>nan\<close> entries (and a RuntimeWarning on stderr only);
  every entry of the array returned is then \<^verbatim>\<open>nan\<close>, and the model does not follow
  the run any further. \<open>Ok x\<close>: the finite value \<open>x\<close>.
\<close>

datatype py_error = ValueError | LinAlgError | AttributeError | ZeroDivisionError

datatype 'a outcome = Raise py_error | NaN | Ok 'a

type_synonym vec3 = "real \<times> real \<times> real"
type_synonym vec4 = "real \<times> real \<times> real \<times> real"
type_synonym mat3 = "vec3 \<times> vec3 \<times> vec3"
type_synonym mat4 = "vec4 \<times> vec4 \<times> vec4 \<times> vec4"

subsection \<open>numpy operations on 3-vectors and 4-vectors\<close>

fun add3 :: "vec3 \<Rightarrow> vec3 \<Rightarrow> vec3" where
  "add3 (a0, a1, a2) (b0, b1, b2) = (a0 + b0, a1 + b1, a2 + b2)"

fun sub3 :: "vec3 \<Rightarrow> vec3 \<Rightarrow> vec3" where
  "sub3 (a0, a1, a2) (b0, b1, b2) = (a0 - b0, a1 - b1, a2 - b2)"

fun scale3 :: "real \<Rightarrow> vec3 \<Rightarrow> vec3" where
  "scale3 c (a0, a1, a2) = (c * a0, c * a1, c * a2)"

fun np_dot :: "vec3 \<Rightarrow> vec3 \<Rightarrow> real" where
  "np_dot (a0, a1, a2) (b0, b1, b2) = a0 * b0 + a1 * b1 + a2 * b2"

fun np_cross :: "vec3 \<Rightarrow> vec3 \<Rightarrow> vec3" where
  "np_cross (a0, a1, a2) (b0, b1, b2) =
     (a1 * b2 - a2 * b1, a2 * b0 - a0 * b2, a0 * b1 - a1 * b0)"

fun add4 :: "vec4 \<Rightarrow> vec4 \<Rightarrow> vec4" where
  "add4 (a0, a1, a2, a3) (b0, b1, b2, b3) = (a0 + b0, a1 + b1, a2 + b2, a3 + b3)"

fun scale4 :: "real \<Rightarrow> vec4 \<Rightarrow> vec4" where
  "scale4 c (a0, a1, a2, a3) = (c * a0, c * a1, c * a2, c * a3)"

fun neg4 :: "vec4 \<Rightarrow> vec4" where
  "neg4 (a0, a1, a2, a3) = (- a0, - a1, - a2, - a3)"

fun mat3_vec :: "mat3 \<Rightarrow> vec3 \<Rightarrow> vec3" where
  "mat3_vec (r0, r1, r2) v = (np_dot r0 v, np_dot r1 v, np_dot r2 v)"

fun transpose3 :: "mat3 \<Rightarrow> mat3" where
  "transpose3 ((a00, a01, a02), (a10, a11, a12), (a20, a21, a22)) =
     ((a00, a10, a20), (a01, a11, a21), (a02, a12, a22))"

fun scale_mat3 :: "real \<Rightarrow> mat3 \<Rightarrow> mat3" where
  "scale_mat3 c (r0, r1, r2) = (scale3 c r0, scale3 c r1, scale3 c r2)"

fun dot4 :: "vec4 \<Rightarrow> vec4 \<Rightarrow> real" where
  "dot4 (a0, a1, a2, a3) (b0, b1, b2, b3) = a0 * b0 + a1 * b1 + a2 * b2 + a3 * b3"

fun mat4_vec :: "mat4 \<Rightarrow> vec4 \<Rightarrow> vec4" where
  "mat4_vec (r0, r1, r2, r3) v = (dot4 r0 v, dot4 r1 v, dot4 r2 v, dot4 r3 v)"

text \<open>
  \<^verbatim>\<open>np.linalg.norm\<close> of a one-dimensional array of any length: the Euclidean norm.
\<close>

definition linalg_norm :: "real list \<Rightarrow> real" where
  "linalg_norm v = sqrt (sum_list (map (\<lambda>x. x * x) v))"

fun list3 :: "vec3 \<Rightarrow> real list" where
  "list3 (a0, a1, a2) = [a0, a1, a2]"

fun list4 :: "vec4 \<Rightarrow> real list" where
  "list4 (a0, a1, a2, a3) = [a0, a1, a2, a3]"

section \<open>Quaternion algebra\<close>

text \<open>
  \<^verbatim>\<open>
  def quat_mult(q, p):
      return np.array([
          p[0] * q[0] - q[1] * p[1] - q[2] * p[2] - q[3] * p[3],
          q[1] * p[0] + q[0] * p[1] + q[2] * p[3] - q[3] * p[2],
          q[2] * p[0] + q[0] * p[2] + q[3] * p[1] - q[1] * p[3],
          q[3] * p[0] + q[0] * p[3] + q[1] * p[2] - q[2] * p[1]])
  def quat_conjugate(q):
      return np.array([q[0], -q[1], -q[2], -q[3]])
  \<close>
\<close>

fun quat_mult :: "vec4 \<Rightarrow> vec4 \<Rightarrow> vec4" where
  "quat_mult (q0, q1, q2, q3) (p0, p1, p2, p3) =
     (p0 * q0 - q1 * p1 - q2 * p2 - q3 * p3,
      q1 * p0 + q0 * p1 + q2 * p3 - q3 * p2,
      q2 * p0 + q0 * p2 + q3 * p1 - q1 * p3,
      q3 * p0 + q0 * p3 + q1 * p2 - q2 * p1)"

fun quat_conjugate :: "vec4 \<Rightarrow> vec4" where
  "quat_conjugate (q0, q1, q2, q3) = (q0, - q1, - q2, - q3)"

text \<open>
  \<^verbatim>\<open>
  def normalized(v):
      norm = np.linalg.norm(v)
      return v / norm
  \<close>
  The function takes an array of any length. numpy's division does not raise: with
  \<^verbatim>\<open>norm == 0.0\<close> every entry of \<^verbatim>\<open>v\<close> is zero, each quotient is \<^verbatim>\<open>0.0 / 0.0\<close>
  and the array returned holds \<^verbatim>\<open>nan\<close> in every entry. (An empty array has norm
  zero and is returned as it is: it has no entry to divide.)
\<close>

definition normalized :: "real list \<Rightarrow> real list outcome" where
  "normalized v =
     (let norm = linalg_norm v
      in if norm = 0 \<and> v \<noteq> [] then NaN else Ok (map (\<lambda>x. x / norm) v))"

text \<open>The same function at the shape the program calls it with, a 3-vector.\<close>

fun vec3_of :: "real list outcome \<Rightarrow> vec3 outcome" where
  "vec3_of (Ok v) = Ok (v ! 0, v ! 1, v ! 2)"
| "vec3_of NaN = NaN"
| "vec3_of (Raise e) = Raise e"

definition normalized3 :: "vec3 \<Rightarrow> vec3 outcome" where
  "normalized3 v = vec3_of (normalized (list3 v))"

text \<open>
  \<^verbatim>\<open>
  def quaternion_from_vectors(v_from, v_to):
      v_from = normalized(v_from)
      v_to = normalized(v_to)
      v_mid = normalized(v_from + v_to)
      q = np.array([np.dot(v_from, v_mid), *np.cross(v_from, v_mid)])
      return q
  \<close>
  A \<^verbatim>\<open>nan\<close> of any of the three normalisations reaches every entry of \<^verbatim>\<open>q\<close>.
  A 4-vector is the pair of its first entry and the 3-vector of the others, so
  \<^verbatim>\<open>[s, *v]\<close> is the pair \<open>(s, v)\<close>.
\<close>

definition quaternion_from_vectors :: "vec3 \<Rightarrow> vec3 \<Rightarrow> vec4 outcome" where
  "quaternion_from_vectors v_from v_to =
     (case normalized3 v_from of
        Raise e \<Rightarrow> Raise e
      | NaN \<Rightarrow> NaN
      | Ok v_from' \<Rightarrow>
          (case normalized3 v_to of
             Raise e \<Rightarrow> Raise e
           | NaN \<Rightarrow> NaN
           | Ok v_to' \<Rightarrow>
               (case normalized3 (add3 v_from' v_to') of
                  Raise e \<Rightarrow> Raise e
                | NaN \<Rightarrow> NaN
                | Ok v_mid \<Rightarrow> Ok (np_dot v_from' v_mid, np_cross v_from' v_mid))))"


section \<open>Library functions the program calls\<close>

text \<open>
  \<^verbatim>\<open>scipy.spatial.transform.Rotation.from_quat([x, y, z, w]).as_matrix()\<close>, a function
  of the scipy library: \<^verbatim>\<open>from_quat\<close> takes the quaternion scalar-last, raises
  \<^verbatim>\<open>ValueError\<close> ("Found zero norm quaternions") when its norm is zero and normalises
  it otherwise; \<^verbatim>\<open>as_matrix\<close> is the rotation matrix of the unit quaternion.
\<close>

definition from_quat_as_matrix :: "vec4 \<Rightarrow> mat3 outcome" where
  "from_quat_as_matrix xyzw =
     (let n = linalg_norm (list4 xyzw)
      in if n = 0 then Raise ValueError
         else (case xyzw of (x', y', z', w') \<Rightarrow>
           let x = x' / n; y = y' / n; z = z' / n; w = w' / n
           in Ok ((x * x - y * y - z * z + w * w, 2 * (x * y - z * w), 2 * (x * z + y * w)),
                  (2 * (x * y + z * w), - (x * x) + y * y - z * z + w * w, 2 * (y * z - x * w)),
                  (2 * (x * z - y * w), 2 * (y * z + x * w), - (x * x) - y * y + z * z + w * w))))"

text \<open>
  \<^verbatim>\<open>np.linalg.inv\<close>, a function of numpy: the inverse of a square matrix, and
  \<^verbatim>\<open>LinAlgError\<close> for a singular one. In exact arithmetic the inverse is the adjugate
  over the determinant.
\<close>

fun det3 :: "mat3 \<Rightarrow> real" where
  "det3 ((a, b, c), (d, e, f), (g, h, i)) =
     a * (e * i - f * h) - b * (d * i - f * g) + c * (d * h - e * g)"

definition linalg_inv3 :: "mat3 \<Rightarrow> mat3 outcome" where
  "linalg_inv3 M =
     (if det3 M = 0 then Raise LinAlgError
      else (case M of ((a, b, c), (d, e, f), (g, h, i)) \<Rightarrow>
        Ok (scale_mat3 (1 / det3 M)
             ((e * i - f * h, c * h - b * i, b * f - c * e),
              (f * g - d * i, a * i - c * g, c * d - a * f),
              (d * h - e * g, b * g - a * h, a * e - b * d)))))"

fun del :: "nat \<Rightarrow> vec4 \<Rightarrow> vec3" where
  "del j (a0, a1, a2, a3) =
     (if j = 0 then (a1, a2, a3) else if j = 1 then (a0, a2, a3)
      else if j = 2 then (a0, a1, a3) else (a0, a1, a2))"

fun minor4 :: "mat4 \<Rightarrow> nat \<Rightarrow> nat \<Rightarrow> real" where
  "minor4 (r0, r1, r2, r3) i j =
     det3 (if i = 0 then (del j r1, del j r2, del j r3)
           else if i = 1 then (del j r0, del j r2, del j r3)
           else if i = 2 then (del j r0, del j r1, del j r3)
           else (del j r0, del j r1, del j r2))"

definition cofactor4 :: "mat4 \<Rightarrow> nat \<Rightarrow> nat \<Rightarrow> real" where
  "cofactor4 M i j = (if even (i + j) then minor4 M i j else - minor4 M i j)"

fun det4 :: "mat4 \<Rightarrow> real" where
  "det4 ((a0, a1, a2, a3), r1, r2, r3) =
     (let M = ((a0, a1, a2, a3), r1, r2, r3)
      in a0 * cofactor4 M 0 0 + a1 * cofactor4 M 0 1 + a2 * cofactor4 M 0 2
         + a3 * cofactor4 M 0 3)"

definition linalg_inv4 :: "mat4 \<Rightarrow> mat4 outcome" where
  "linalg_inv4 M =
     (let d = det4 M
      in if d = 0 then Raise LinAlgError
         else Ok ((cofactor4 M 0 0 / d, cofactor4 M 1 0 / d, cofactor4 M 2 0 / d, cofactor4 M 3 0 / d),
                  (cofactor4 M 0 1 / d, cofactor4 M 1 1 / d, cofactor4 M 2 1 / d, cofactor4 M 3 1 / d),
                  (cofactor4 M 0 2 / d, cofactor4 M 1 2 / d, cofactor4 M 2 2 / d, cofactor4 M 3 2 / d),
                  (cofactor4 M 0 3 / d, cofactor4 M 1 3 / d, cofactor4 M 2 3 / d, cofactor4 M 3 3 / d)))"

section \<open>The rigid-body state and the robot\<close>

text \<open>
  The state is one array of \<^verbatim>\<open>NO_STATES = 13\<close> floats, read and written through four
  slices: \<^verbatim>\<open>IDX_POS_X:IDX_POS_Z+1\<close> (0..2), \<^verbatim>\<open>IDX_VEL_X:IDX_VEL_Z+1\<close> (3..5),
  \<^verbatim>\<open>IDX_QUAT_W:IDX_QUAT_Z+1\<close> (6..9, scalar first) and
  \<^verbatim>\<open>IDX_OMEGA_X:IDX_OMEGA_Z+1\<close> (10..12). The record has one field per slice.
\<close>

record state =
  s_pos :: vec3
  s_vel :: vec3
  s_quat :: vec4
  s_omega :: vec3

text \<open>
  The attributes of a \<^verbatim>\<open>Robot\<close> object. \<^verbatim>\<open>__init__\<close> does not set \<^verbatim>\<open>F0\<close>,
  \<^verbatim>\<open>omega_w\<close>, \<^verbatim>\<open>phi\<close> and \<^verbatim>\<open>wind_force\<close>: they are \<open>None\<close> until assigned, and
  reading one before that raises \<^verbatim>\<open>AttributeError\<close>.
\<close>

record robot =
  self_m :: real
  self_arm_length :: real
  self_height :: real
  self_body_frame :: "vec4 list"
  self_J :: mat3
  self_J_inv :: mat3
  self_constant_thrust :: real
  self_constant_drag :: real
  self_omega_motors :: vec4
  self_state :: state
  self_time :: real
  self_F0 :: "vec3 option"
  self_omega_w :: "real option"
  self_phi :: "real option"
  self_wind_force :: "vec3 option"

definition reset_state_and_input :: "vec3 \<Rightarrow> vec4 \<Rightarrow> state" where
  "reset_state_and_input init_xyz init_quat_wxyz =
     \<lparr>s_pos = init_xyz, s_vel = (0, 0, 0), s_quat = init_quat_wxyz, s_omega = (0, 0, 0)\<rparr>"

definition eye3 :: mat3 where
  "eye3 = ((1, 0, 0), (0, 1, 0), (0, 0, 1))"

text \<open>\<^verbatim>\<open>Robot.__init__\<close>; \<^verbatim>\<open>10e-4\<close> is 1/1000 and \<^verbatim>\<open>10e-6\<close> is 1/100000.\<close>

definition Robot_init :: "robot outcome" where
  "Robot_init =
     (let m = 1; arm_length = 25 / 100; height = 5 / 100;
          J = scale_mat3 (25 / 1000) eye3
      in case linalg_inv3 J of
           Raise e \<Rightarrow> Raise e
         | NaN \<Rightarrow> NaN
         | Ok J_inv \<Rightarrow>
             Ok \<lparr>self_m = m, self_arm_length = arm_length, self_height = height,
                 self_body_frame =
                   [(arm_length, 0, 0, 1), (0, arm_length, 0, 1), (- arm_length, 0, 0, 1),
                    (0, - arm_length, 0, 1), (0, 0, 0, 1), (0, 0, height, 1)],
                 self_J = J, self_J_inv = J_inv,
                 self_constant_thrust = 1 / 1000, self_constant_drag = 1 / 100000,
                 self_omega_motors = (0, 0, 0, 0),
                 self_state = reset_state_and_input (1, 0, 0) (1, 0, 0, 0),
                 self_time = 0,
                 self_F0 = None, self_omega_w = None, self_phi = None,
                 self_wind_force = None\<rparr>)"


section \<open>The integrator\<close>

text \<open>
  The forward thrust and torque model, lines 101 to 107 of \<^verbatim>\<open>update\<close> (and the same
  lines 128 to 134 of \<^verbatim>\<open>update_wind\<close>):
  \<^verbatim>\<open>
  thrust = self.constant_thrust * np.sum(omegas_motor**2)
  tau_x = self.constant_thrust * (omegas_motor[3]**2 - omegas_motor[1]**2) * 2 * self.arm_length
  tau_y = self.constant_thrust * (omegas_motor[2]**2 - omegas_motor[0]**2) * 2 * self.arm_length
  tau_z = self.constant_drag * (omegas_motor[0]**2 - omegas_motor[1]**2 + omegas_motor[2]**2 - omegas_motor[3]**2)
  \<close>
\<close>

fun forward_map :: "robot \<Rightarrow> vec4 \<Rightarrow> real \<times> vec3" where
  "forward_map self (w0, w1, w2, w3) =
     (let thrust = self_constant_thrust self * (w0\<^sup>2 + w1\<^sup>2 + w2\<^sup>2 + w3\<^sup>2);
          tau_x = self_constant_thrust self * (w3\<^sup>2 - w1\<^sup>2) * 2 * self_arm_length self;
          tau_y = self_constant_thrust self * (w2\<^sup>2 - w0\<^sup>2) * 2 * self_arm_length self;
          tau_z = self_constant_drag self * (w0\<^sup>2 - w1\<^sup>2 + w2\<^sup>2 - w3\<^sup>2)
      in (thrust, (tau_x, tau_y, tau_z)))"

text \<open>
  Line 111 (and 143):
  \<^verbatim>\<open>omega_dot = self.J_inv @ (np.cross(self.J @ omega, omega) + tau_b)\<close>
\<close>

definition omega_dot :: "robot \<Rightarrow> vec3 \<Rightarrow> vec3 \<Rightarrow> vec3" where
  "omega_dot self omega tau_b =
     mat3_vec (self_J_inv self) (add3 (np_cross (mat3_vec (self_J self) omega) omega) tau_b)"

text \<open>Line 112 (and 144): \<^verbatim>\<open>q_dot = 1 / 2 * quat_mult(q, [0, *omega])\<close>\<close>

definition q_dot :: "vec4 \<Rightarrow> vec3 \<Rightarrow> vec4" where
  "q_dot q omega = scale4 (1 / 2) (quat_mult q (0, omega))"

text \<open>Line 116 (and 148): \<^verbatim>\<open>self.state += x_dot * dt\<close>, on all 13 entries.\<close>

definition euler_step :: "state \<Rightarrow> state \<Rightarrow> real \<Rightarrow> state" where
  "euler_step x x_dot dt =
     \<lparr>s_pos = add3 (s_pos x) (scale3 dt (s_pos x_dot)),
      s_vel = add3 (s_vel x) (scale3 dt (s_vel x_dot)),
      s_quat = add4 (s_quat x) (scale4 dt (s_quat x_dot)),
      s_omega = add3 (s_omega x) (scale3 dt (s_omega x_dot))\<rparr>"

text \<open>
  Line 117 (and 149), the renormalisation, a numpy division in place:
  \<^verbatim>\<open>self.state[IDX_QUAT_W:IDX_QUAT_Z+1] /= np.linalg.norm(self.state[IDX_QUAT_W:IDX_QUAT_Z+1])\<close>
  With a zero quaternion the four entries become \<^verbatim>\<open>nan\<close>.
\<close>

definition renormalize :: "state \<Rightarrow> state outcome" where
  "renormalize x =
     (let n = linalg_norm (list4 (s_quat x))
      in if n = 0 then NaN
         else (case s_quat x of (w, x1, x2, x3) \<Rightarrow>
                 Ok (x\<lparr>s_quat := (w / n, x1 / n, x2 / n, x3 / n)\<rparr>)))"

text \<open>
  \<^verbatim>\<open>Robot.update(self, omegas_motor, dt)\<close>, lines 94 to 118. \<^verbatim>\<open>self.m\<close> is a Python
  float, so \<^verbatim>\<open>1 / self.m\<close> raises \<^verbatim>\<open>ZeroDivisionError\<close> for a zero mass. In
  \<^verbatim>\<open>1 / self.m * R @ f_b\<close> the operators \<^verbatim>\<open>*\<close> and \<^verbatim>\<open>@\<close> have the same precedence
  and associate to the left: the matrix is scaled first.
\<close>

definition update :: "robot \<Rightarrow> vec4 \<Rightarrow> real \<Rightarrow> robot outcome" where
  "update self omegas_motor dt =
     (let v_I = s_vel (self_state self);
          q = s_quat (self_state self);
          omega = s_omega (self_state self)
      in case from_quat_as_matrix (case q of (q0, q1, q2, q3) \<Rightarrow> (q1, q2, q3, q0)) of
           Raise e \<Rightarrow> Raise e
         | NaN \<Rightarrow> NaN
         | Ok R \<Rightarrow>
             (case forward_map self omegas_motor of (thrust, tau_b) \<Rightarrow>
                let f_b = (0, 0, thrust)
                in if self_m self = 0 then Raise ZeroDivisionError
                   else
                     let v_dot = add3 (mat3_vec (scale_mat3 (1 / self_m self) R) f_b)
                                   (0, 0, - (981 / 100));
                         x_dot = \<lparr>s_pos = v_I, s_vel = v_dot, s_quat = q_dot q omega,
                                  s_omega = omega_dot self omega tau_b\<rparr>
                     in (case renormalize (euler_step (self_state self) x_dot dt) of
                           Raise e \<Rightarrow> Raise e
                         | NaN \<Rightarrow> NaN
                         | Ok x' \<Rightarrow>
                             Ok (self\<lparr>self_state := x', self_time := self_time self + dt\<rparr>))))"

text \<open>
  \<^verbatim>\<open>Robot.update_wind(self, omegas_motor, dt)\<close>, lines 121 to 150. It differs from
  \<^verbatim>\<open>update\<close> in lines 139 to 141:
  \<^verbatim>\<open>
  self.phi = 0
  self.wind_force = self.F0 * np.sin(self.omega_w * self.time + self.phi)
  v_dot = 1 / self.m * (R @ f_b + self.wind_force) + np.array([0, 0, -9.81])
  \<close>
  Reading \<^verbatim>\<open>self.F0\<close> or \<^verbatim>\<open>self.omega_w\<close> raises \<^verbatim>\<open>AttributeError\<close> when the
  attribute was never assigned.
\<close>

definition update_wind :: "robot \<Rightarrow> vec4 \<Rightarrow> real \<Rightarrow> robot outcome" where
  "update_wind self omegas_motor dt =
     (let v_I = s_vel (self_state self);
          q = s_quat (self_state self);
          omega = s_omega (self_state self)
      in case from_quat_as_matrix (case q of (q0, q1, q2, q3) \<Rightarrow> (q1, q2, q3, q0)) of
           Raise e \<Rightarrow> Raise e
         | NaN \<Rightarrow> NaN
         | Ok R \<Rightarrow>
             (case forward_map self omegas_motor of (thrust, tau_b) \<Rightarrow>
                let f_b = (0, 0, thrust); phi = 0
                in (case self_F0 self of
                     None \<Rightarrow> Raise AttributeError
                   | Some F0 \<Rightarrow>
                       (case self_omega_w self of
                          None \<Rightarrow> Raise AttributeError
                        | Some omega_w \<Rightarrow>
                            let wind_force = scale3 (sin (omega_w * self_time self + phi)) F0
                            in if self_m self = 0 then Raise ZeroDivisionError
                               else
                                 let v_dot = add3 (scale3 (1 / self_m self)
                                                     (add3 (mat3_vec R f_b) wind_force))
                                               (0, 0, - (981 / 100));
                                     x_dot = \<lparr>s_pos = v_I, s_vel = v_dot, s_quat = q_dot q omega,
                                              s_omega = omega_dot self omega tau_b\<rparr>
                                 in (case renormalize (euler_step (self_state self) x_dot dt) of
                                       Raise e \<Rightarrow> Raise e
                                     | NaN \<Rightarrow> NaN
                                     | Ok x' \<Rightarrow>
                                         Ok (self\<lparr>self_state := x',
                                                  self_time := self_time self + dt,
                                                  self_phi := Some phi,
                                                  self_wind_force := Some wind_force\<rparr>))))))"


section \<open>The controller\<close>

text \<open>
  The position loop of \<^verbatim>\<open>control\<close>, lines 160 to 164:
  \<^verbatim>\<open>
  k_p = 1.0
  k_d = 10.0
  v_r = - k_p * (p_I - p_d_I)
  a = -k_d * (v_I - v_r) + np.array([0, 0, 9.81])
  f = self.m * a
  \<close>
\<close>

definition desired_force :: "robot \<Rightarrow> vec3 \<Rightarrow> vec3" where
  "desired_force self p_d_I =
     (let p_I = s_pos (self_state self);
          v_I = s_vel (self_state self);
          k_p = 1;
          k_d = 10;
          v_r = scale3 (- k_p) (sub3 p_I p_d_I);
          a = add3 (scale3 (- k_d) (sub3 v_I v_r)) (0, 0, 981 / 100)
      in scale3 (self_m self) a)"

text \<open>
  Lines 170 to 172:
  \<^verbatim>\<open>
  q_err = quat_mult(quat_conjugate(q_ref), q) # error from Body to Reference.
  if (q_err[0] < 0):
      q_err = -q_err
  \<close>
\<close>

definition flip_sign :: "vec4 \<Rightarrow> vec4" where
  "flip_sign q_err = (if fst q_err < 0 then neg4 q_err else q_err)"

definition attitude_error :: "vec4 \<Rightarrow> vec4 \<Rightarrow> vec4" where
  "attitude_error q_ref q = flip_sign (quat_mult (quat_conjugate q_ref) q)"

text \<open>
  Lines 173 to 177:
  \<^verbatim>\<open>
  k_q = 20.0
  k_omega = 100.0
  omega_ref = - k_q * 2 * q_err[1:]
  alpha = - k_omega * (omega_b - omega_ref)
  tau = self.J @ alpha + np.cross(omega_b, self.J @ omega_b)
  \<close>
\<close>

definition attitude_torque :: "robot \<Rightarrow> vec4 \<Rightarrow> vec3 \<Rightarrow> vec3" where
  "attitude_torque self q_err omega_b =
     (let k_q = 20;
          k_omega = 100;
          omega_ref = scale3 (- k_q * 2) (snd q_err);
          alpha = scale3 (- k_omega) (sub3 omega_b omega_ref)
      in add3 (mat3_vec (self_J self) alpha) (np_cross omega_b (mat3_vec (self_J self) omega_b)))"

text \<open>
  The mixer, lines 180 to 189:
  \<^verbatim>\<open>
  B = np.array([
      [self.constant_thrust, self.constant_thrust, self.constant_thrust, self.constant_thrust],
      [0, -self.arm_length * self.constant_thrust, 0, self.arm_length * self.constant_thrust],
      [-self.arm_length * self.constant_thrust, 0, self.arm_length * self.constant_thrust, 0],
      [self.constant_drag, -self.constant_drag, self.constant_drag, -self.constant_drag]
  ])
  B_inv = np.linalg.inv(B)
  omega_motor_square = B_inv @ np.concatenate([np.array([thrust]), tau])
  omega_motor = np.sqrt(np.clip(omega_motor_square, 0, None))
  return omega_motor
  \<close>
\<close>

definition mixer_B :: "robot \<Rightarrow> mat4" where
  "mixer_B self =
     ((self_constant_thrust self, self_constant_thrust self, self_constant_thrust self,
       self_constant_thrust self),
      (0, - self_arm_length self * self_constant_thrust self, 0,
       self_arm_length self * self_constant_thrust self),
      (- self_arm_length self * self_constant_thrust self, 0,
       self_arm_length self * self_constant_thrust self, 0),
      (self_constant_drag self, - self_constant_drag self, self_constant_drag self,
       - self_constant_drag self))"

definition np_clip0 :: "real \<Rightarrow> real" where
  "np_clip0 x = max x 0"

fun motor_speeds :: "mat4 \<Rightarrow> real \<Rightarrow> vec3 \<Rightarrow> vec4" where
  "motor_speeds B_inv thrust (tau0, tau1, tau2) =
     (case mat4_vec B_inv (thrust, tau0, tau1, tau2) of
        (s0, s1, s2, s3) \<Rightarrow>
          (sqrt (np_clip0 s0), sqrt (np_clip0 s1), sqrt (np_clip0 s2), sqrt (np_clip0 s3)))"

definition mixer :: "robot \<Rightarrow> real \<Rightarrow> vec3 \<Rightarrow> vec4 outcome" where
  "mixer self thrust tau =
     (case linalg_inv4 (mixer_B self) of
        Raise e \<Rightarrow> Raise e
      | NaN \<Rightarrow> NaN
      | Ok B_inv \<Rightarrow> Ok (motor_speeds B_inv thrust tau))"

text \<open>
  The mixer on a torque of \<^verbatim>\<open>nan\<close> entries: \<^verbatim>\<open>np.linalg.inv\<close> still raises for a
  singular \<^verbatim>\<open>B\<close>; otherwise the four speeds are \<^verbatim>\<open>nan\<close>.
\<close>

definition mixer_nan :: "robot \<Rightarrow> vec4 outcome" where
  "mixer_nan self = (case linalg_inv4 (mixer_B self) of Raise e \<Rightarrow> Raise e | _ \<Rightarrow> NaN)"

text \<open>
  Line 169, the reference orientation:
  \<^verbatim>\<open>q_ref = quaternion_from_vectors(np.array([0, 0, 1]), normalized(f))\<close>
\<close>

definition reference_quat :: "vec3 \<Rightarrow> vec4 outcome" where
  "reference_quat f =
     (case normalized3 f of
        Raise e \<Rightarrow> Raise e
      | NaN \<Rightarrow> NaN
      | Ok f' \<Rightarrow> quaternion_from_vectors (0, 0, 1) f')"

text \<open>
  \<^verbatim>\<open>Robot.control(self, p_d_I)\<close>, lines 153 to 189. Line 165 is
  \<^verbatim>\<open>f_b = Rotation.from_quat([q[1], q[2], q[3], q[0]]).as_matrix().T @ f\<close> and line 166
  is \<^verbatim>\<open>thrust = np.max([0, f_b[2]])\<close>.
\<close>

definition control :: "robot \<Rightarrow> vec3 \<Rightarrow> vec4 outcome" where
  "control self p_d_I =
     (let q = s_quat (self_state self);
          omega_b = s_omega (self_state self);
          f = desired_force self p_d_I
      in case from_quat_as_matrix (case q of (q0, q1, q2, q3) \<Rightarrow> (q1, q2, q3, q0)) of
           Raise e \<Rightarrow> Raise e
         | NaN \<Rightarrow> NaN
         | Ok R \<Rightarrow>
             (let f_b = mat3_vec (transpose3 R) f;
                  thrust = max 0 (snd (snd f_b))
              in (case reference_quat f of
                    Raise e \<Rightarrow> Raise e
                  | NaN \<Rightarrow> mixer_nan self
                  | Ok q_ref \<Rightarrow>
                      mixer self thrust (attitude_torque self (attitude_error q_ref q) omega_b))))"

section \<open>The driver and the training data\<close>

text \<open>
  \<^verbatim>\<open>
  CONTROL_FREQUENCY = 200 # Hz for attitude control loop
  dt = 1.0 / CONTROL_FREQUENCY
  \<close>
\<close>

definition dt_global :: real where
  "dt_global = 1 / 200"

text \<open>
  \<^verbatim>\<open>
  def control_propellers(quad):
      t = quad.time
      T = 1.5
      r = 2*np.pi * t / T
      prop_thrusts = quad.control(p_d_I = np.array([np.cos(r/2), np.sin(r), 0.0]))
      quad.update_wind(prop_thrusts, dt)
  \<close>
  When \<^verbatim>\<open>control\<close> returns \<^verbatim>\<open>nan\<close> speeds, \<^verbatim>\<open>update_wind\<close> still runs and still
  raises what it raises for any speeds; the zero speeds stand in for the \<^verbatim>\<open>nan\<close> ones
  there, and the outcome of a step that does not raise is \<open>NaN\<close>.
\<close>

definition control_propellers :: "robot \<Rightarrow> robot outcome" where
  "control_propellers quad =
     (let t = self_time quad;
          T = 15 / 10;
          r = 2 * pi * t / T
      in case control quad (cos (r / 2), sin r, 0) of
           Raise e \<Rightarrow> Raise e
         | NaN \<Rightarrow> (case update_wind quad (0, 0, 0, 0) dt_global of Raise e \<Rightarrow> Raise e | _ \<Rightarrow> NaN)
         | Ok prop_thrusts \<Rightarrow> update_wind quad prop_thrusts dt_global)"

text \<open>
  \<^verbatim>\<open>get_pos_full_quadcopter(quad)\<close>, lines 198 to 209: the six points of
  \<^verbatim>\<open>body_frame\<close> (homogeneous coordinates) moved by the rotation of the state's
  quaternion and the translation of its position; the columns of the 3 x 6 matrix
  returned, as a list.
\<close>

definition get_pos_full_quadcopter :: "robot \<Rightarrow> vec3 list outcome" where
  "get_pos_full_quadcopter quad =
     (let origin = s_pos (self_state quad);
          quat = s_quat (self_state quad)
      in case from_quat_as_matrix (case quat of (q0, q1, q2, q3) \<Rightarrow> (q1, q2, q3, q0)) of
           Raise e \<Rightarrow> Raise e
         | NaN \<Rightarrow> NaN
         | Ok rot \<Rightarrow>
             Ok (map (\<lambda>(b0, b1, b2, b3). add3 (mat3_vec rot (b0, b1, b2)) (scale3 b3 origin))
                   (self_body_frame quad)))"

text \<open>
  One row of the data set, line 283:
  \<^verbatim>\<open>
  np.concatenate([state[IDX_VEL_X:IDX_VEL_Z+1], state[IDX_QUAT_W:IDX_QUAT_Z+1],
                  omega_motor, quadcopter.wind_force])
  \<close>
  with \<^verbatim>\<open>omega_motor = quadcopter.omega_motors\<close> (line 281).
\<close>

record sample =
  d_vel :: vec3
  d_quat :: vec4
  d_omega_motor :: vec4
  d_wind_force :: vec3

text \<open>
  The loop of lines 278 to 283, \<open>n\<close> ticks from the robot \<open>quadcopter\<close>: the robot
  after the last tick, the rows of \<^verbatim>\<open>data\<close> and the entries of \<^verbatim>\<open>trajectory\<close>, in
  the order they were appended.
\<close>

fun data_loop :: "nat \<Rightarrow> robot \<Rightarrow> (robot \<times> sample list \<times> vec3 list list) outcome" where
  "data_loop 0 quadcopter = Ok (quadcopter, [], [])"
| "data_loop (Suc n) quadcopter =
     (case control_propellers quadcopter of
        Raise e \<Rightarrow> Raise e
      | NaN \<Rightarrow> NaN
      | Ok quad1 \<Rightarrow>
          (case get_pos_full_quadcopter quad1 of
             Raise e \<Rightarrow> Raise e
           | NaN \<Rightarrow> NaN
           | Ok pos \<Rightarrow>
               (case self_wind_force quad1 of
                  None \<Rightarrow> Raise AttributeError
                | Some wind_force \<Rightarrow>
                    (let row = \<lparr>d_vel = s_vel (self_state quad1),
                                d_quat = s_quat (self_state quad1),
                                d_omega_motor = self_omega_motors quad1,
                                d_wind_force = wind_force\<rparr>
                     in (case data_loop n quad1 of
                           Raise e \<Rightarrow> Raise e
                         | NaN \<Rightarrow> NaN
                         | Ok (quad2, data, trajectory) \<Rightarrow>
                             Ok (quad2, row # data, pos # trajectory))))))"

text \<open>
  One pass of the two loops of \<^verbatim>\<open>generate_training_data\<close>, lines 272 to 283, for a
  wind amplitude and an angular velocity; the script runs
  \<^verbatim>\<open>int(simulation_time / dt)\<close> = 25000 ticks for each of the nine pairs of
  \<^verbatim>\<open>np.arange(0, 3, 1)\<close> and \<^verbatim>\<open>np.arange(0.5, 2, 0.5) * 2 * np.pi\<close>.
\<close>

definition training_run ::
  "nat \<Rightarrow> real \<Rightarrow> real \<Rightarrow> (robot \<times> sample list \<times> vec3 list list) outcome" where
  "training_run n wind angular_velocity =
     (case Robot_init of
        Raise e \<Rightarrow> Raise e
      | NaN \<Rightarrow> NaN
      | Ok quadcopter \<Rightarrow>
          data_loop n (quadcopter\<lparr>self_F0 := Some (wind, 0, 0),
                                  self_omega_w := Some angular_velocity\<rparr>))"

definition generate_training_data ::
  "(robot \<times> sample list \<times> vec3 list list) outcome list" where
  "generate_training_data =
     concat (map (\<lambda>wind. map (\<lambda>angular_velocity. training_run 25000 wind angular_velocity)
                           [pi, 2 * pi, 3 * pi])
                 [0, 1, 2])"


section \<open>Concrete robots\<close>

text \<open>
  The value of \<^verbatim>\<open>Robot()\<close>, and the robot of one pass of \<^verbatim>\<open>generate_training_data\<close>
  after lines 272 to 274 (\<^verbatim>\<open>quadcopter.F0 = np.array([wind, 0.0, 0.0])\<close> and
  \<^verbatim>\<open>quadcopter.omega_w = angular_velocity\<close>).
\<close>

definition fresh_robot :: robot where
  "fresh_robot =
     \<lparr>self_m = 1, self_arm_length = 1 / 4, self_height = 1 / 20,
      self_body_frame =
        [(1 / 4, 0, 0, 1), (0, 1 / 4, 0, 1), (- (1 / 4), 0, 0, 1),
         (0, - (1 / 4), 0, 1), (0, 0, 0, 1), (0, 0, 1 / 20, 1)],
      self_J = ((1 / 40, 0, 0), (0, 1 / 40, 0), (0, 0, 1 / 40)),
      self_J_inv = ((40, 0, 0), (0, 40, 0), (0, 0, 40)),
      self_constant_thrust = 1 / 1000, self_constant_drag = 1 / 100000,
      self_omega_motors = (0, 0, 0, 0),
      self_state = \<lparr>s_pos = (1, 0, 0), s_vel = (0, 0, 0), s_quat = (1, 0, 0, 0),
                     s_omega = (0, 0, 0)\<rparr>,
      self_time = 0, self_F0 = None, self_omega_w = None, self_phi = None,
      self_wind_force = None\<rparr>"

definition wind_robot :: "real \<Rightarrow> real \<Rightarrow> robot" where
  "wind_robot wind angular_velocity =
     fresh_robot\<lparr>self_F0 := Some (wind, 0, 0), self_omega_w := Some angular_velocity\<rparr>"

section \<open>Notions the claims use\<close>

text \<open>
  Two vectors are antiparallel when one is a negative multiple of the other: their
  cross product is zero and their dot product is negative.
\<close>

definition antiparallel :: "vec3 \<Rightarrow> vec3 \<Rightarrow> bool" where
  "antiparallel u v \<longleftrightarrow> np_cross u v = (0, 0, 0) \<and> np_dot u v < 0"

text \<open>An outcome fails with an error when Python raised an exception.\<close>

fun raises :: "'a outcome \<Rightarrow> bool" where
  "raises (Raise e) = True"
| "raises NaN = False"
| "raises (Ok x) = False"

section \<open>Properties\<close>

subsection \<open>Auxiliary facts\<close>

lemma Robot_init_fresh: "Robot_init = Ok fresh_robot"
  by (simp add: Robot_init_def fresh_robot_def linalg_inv3_def eye3_def
      reset_state_and_input_def Let_def)

lemma linalg_norm4: "linalg_norm [a, b, c, d] = sqrt (a * a + b * b + c * c + d * d)"
  by (simp add: linalg_norm_def)

lemma linalg_norm3: "linalg_norm [a, b, c] = sqrt (a * a + b * b + c * c)"
  by (simp add: linalg_norm_def)

lemma sumsq4_zero:
  "a * a + b * b + c * c + d * d = 0 \<longleftrightarrow> a = 0 \<and> b = 0 \<and> c = 0 \<and> (d::real) = 0"
proof -
  have "a * a + b * b + c * c + d * d = a\<^sup>2 + b\<^sup>2 + c\<^sup>2 + d\<^sup>2"
    by (simp add: power2_eq_square)
  moreover have "a\<^sup>2 + b\<^sup>2 + c\<^sup>2 + d\<^sup>2 = 0 \<longleftrightarrow> a = 0 \<and> b = 0 \<and> c = 0 \<and> d = 0"
    by (smt (verit) sum_power2_eq_zero_iff zero_le_power2 power2_eq_iff_nonneg zero_eq_power2)
  ultimately show ?thesis by simp
qed

lemma sumsq3_zero: "a * a + b * b + c * c = 0 \<longleftrightarrow> a = 0 \<and> b = 0 \<and> (c::real) = 0"
  using sumsq4_zero [of a b c 0] by simp

lemma unit4:
  assumes "(a, b, c, d) \<noteq> (0, 0, 0, 0)"
  shows "linalg_norm (map (\<lambda>x. x / linalg_norm [a, b, c, d]) [a, b, c, d]) = 1"
proof -
  define S where "S = a * a + b * b + c * c + d * d"
  have S0: "S \<noteq> 0" using assms unfolding S_def by (simp add: sumsq4_zero)
  have "0 \<le> S" unfolding S_def by (simp add: add_nonneg_nonneg)
  with S0 have Sp: "0 < S" by linarith
  have sq: "sqrt S * sqrt S = S" using Sp by simp
  have "(a / sqrt S) * (a / sqrt S) + (b / sqrt S) * (b / sqrt S) + (c / sqrt S) * (c / sqrt S)
          + (d / sqrt S) * (d / sqrt S)
        = (a * a + b * b + c * c + d * d) / (sqrt S * sqrt S)"
    by (simp add: add_divide_distrib)
  also have "\<dots> = 1" using sq S0 by (simp add: S_def)
  finally show ?thesis by (simp add: linalg_norm4 S_def)
qed

lemma mat3_vec_scale: "mat3_vec (scale_mat3 c R) v = scale3 c (mat3_vec R v)"
  by (cases R rule: prod_cases3; cases v; auto simp add: algebra_simps)

lemma add3_zero: "add3 u (0, 0, 0) = u"
  by (cases u) simp

lemma flip_sign_nonneg: "0 \<le> fst (flip_sign e)"
  by (cases e) (simp add: flip_sign_def)

lemma neg4_same_rotation:
  "quat_mult (neg4 e) (quat_mult p (quat_conjugate (neg4 e)))
     = quat_mult e (quat_mult p (quat_conjugate e))"
  by (cases e; cases p) (simp add: algebra_simps)

lemma flip_sign_same_rotation:
  "quat_mult (flip_sign e) (quat_mult p (quat_conjugate (flip_sign e)))
     = quat_mult e (quat_mult p (quat_conjugate e))"
  by (simp add: flip_sign_def neg4_same_rotation)

subsection \<open>Quaternion algebra\<close>

text \<open>
  Claim C9. \<^verbatim>\<open>quat_mult\<close> is associative on all 4-vectors, \<^verbatim>\<open>[1,0,0,0]\<close> is a left
  and a right identity, and the product of a quaternion \<open>(w, x, y, z)\<close> with its
  conjugate is \<open>(w\<^sup>2 + x\<^sup>2 + y\<^sup>2 + z\<^sup>2, 0, 0, 0)\<close>: real, and the square of the
  quaternion's norm.
\<close>

theorem quat_mult_algebra:
  "quat_mult (quat_mult a b) c = quat_mult a (quat_mult b c)
   \<and> quat_mult (1, 0, 0, 0) a = a
   \<and> quat_mult a (1, 0, 0, 0) = a
   \<and> quat_mult (w, x, y, z) (quat_conjugate (w, x, y, z)) = (w\<^sup>2 + x\<^sup>2 + y\<^sup>2 + z\<^sup>2, 0, 0, 0)
   \<and> w\<^sup>2 + x\<^sup>2 + y\<^sup>2 + z\<^sup>2 = (linalg_norm (list4 (w, x, y, z)))\<^sup>2"
proof -
  have assoc: "quat_mult (quat_mult a b) c = quat_mult a (quat_mult b c)"
    by (cases a; cases b; cases c) (simp add: algebra_simps)
  have unit: "quat_mult (1, 0, 0, 0) a = a \<and> quat_mult a (1, 0, 0, 0) = a"
    by (cases a) simp
  have conj: "quat_mult (w, x, y, z) (quat_conjugate (w, x, y, z))
                = (w\<^sup>2 + x\<^sup>2 + y\<^sup>2 + z\<^sup>2, 0, 0, 0)"
    by (simp add: power2_eq_square algebra_simps)
  have "0 \<le> w * w + x * x + y * y + z * z"
    by (simp add: add_nonneg_nonneg)
  then have norm: "w\<^sup>2 + x\<^sup>2 + y\<^sup>2 + z\<^sup>2 = (linalg_norm (list4 (w, x, y, z)))\<^sup>2"
    by (simp add: linalg_norm4 power2_eq_square)
  from assoc unit conj norm show ?thesis by blast
qed

subsection \<open>The sign of the attitude error\<close>

text \<open>
  Claim C10. In the attitude loop of \<^verbatim>\<open>control\<close> the raw error quaternion
  \<^verbatim>\<open>quat_mult(quat_conjugate(q_ref), q)\<close> is negated as a whole when its scalar part is
  negative and kept otherwise; the corrected error has a non-negative scalar part; and
  the corrected and the raw error conjugate every quaternion \<open>p\<close> (so every vector,
  as the quaternion \<open>(0, v)\<close>) to the same result, as do any \<open>e\<close> and \<open>- e\<close>.
\<close>

theorem attitude_error_sign_flip:
  "attitude_error q_ref q =
     (if fst (quat_mult (quat_conjugate q_ref) q) < 0
      then neg4 (quat_mult (quat_conjugate q_ref) q)
      else quat_mult (quat_conjugate q_ref) q)
   \<and> 0 \<le> fst (attitude_error q_ref q)
   \<and> quat_mult (attitude_error q_ref q) (quat_mult p (quat_conjugate (attitude_error q_ref q)))
       = quat_mult (quat_mult (quat_conjugate q_ref) q)
           (quat_mult p (quat_conjugate (quat_mult (quat_conjugate q_ref) q)))
   \<and> quat_mult (neg4 e) (quat_mult p (quat_conjugate (neg4 e)))
       = quat_mult e (quat_mult p (quat_conjugate e))"
  unfolding attitude_error_def
  using flip_sign_nonneg flip_sign_same_rotation neg4_same_rotation
  by (simp add: flip_sign_def)

subsection \<open>Zero wind\<close>

text \<open>
  Claim C3. With the wind amplitude \<^verbatim>\<open>F0\<close> the zero vector (and \<^verbatim>\<open>omega_w\<close> assigned),
  one step of \<^verbatim>\<open>update_wind\<close> has the outcome of one step of \<^verbatim>\<open>update\<close> from the same
  robot with the same rotor speeds and time step: the same exception, or the same
  13 entries of the state and the same clock. This holds for every state, every rotor
  speeds, every time step and every time.
\<close>

theorem update_wind_zero_amplitude:
  assumes "self_F0 self = Some (0, 0, 0)" and "self_omega_w self = Some omega_w"
  shows "map_outcome (\<lambda>r. (self_state r, self_time r)) (update_wind self omegas_motor dt)
       = map_outcome (\<lambda>r. (self_state r, self_time r)) (update self omegas_motor dt)"
  using assms
  by (simp add: update_def update_wind_def Let_def mat3_vec_scale add3_zero
        split: outcome.splits prod.splits)

lemma update_example:
  "update ((wind_robot wind angular_velocity)\<lparr>self_time := 1 / 2\<rparr>) (55, 50, 50, 50) (1 / 200)
     = Ok ((wind_robot wind angular_velocity)
            \<lparr>self_state := \<lparr>s_pos = (1, 0, 0), s_vel = (0, 0, 143 / 40000),
                             s_quat = (1, 0, 0, 0), s_omega = (0, - (21 / 400), 21 / 20000)\<rparr>,
             self_time := 101 / 200\<rparr>)"
  by (simp add: update_def wind_robot_def fresh_robot_def from_quat_as_matrix_def Let_def
       renormalize_def euler_step_def omega_dot_def q_dot_def linalg_norm4)

lemma update_wind_example:
  "update_wind ((wind_robot 2 pi)\<lparr>self_time := 1 / 2\<rparr>) (55, 50, 50, 50) (1 / 200)
     = Ok ((wind_robot 2 pi)
            \<lparr>self_state := \<lparr>s_pos = (1, 0, 0), s_vel = (1 / 100, 0, 143 / 40000),
                             s_quat = (1, 0, 0, 0), s_omega = (0, - (21 / 400), 21 / 20000)\<rparr>,
             self_time := 101 / 200, self_phi := Some 0, self_wind_force := Some (2, 0, 0)\<rparr>)"
  by (simp add: update_wind_def wind_robot_def fresh_robot_def from_quat_as_matrix_def Let_def
       renormalize_def euler_step_def omega_dot_def q_dot_def linalg_norm4)

theorem update_wind_zero_amplitude_witness:
  "map_outcome (\<lambda>r. (self_state r, self_time r))
     (update_wind ((wind_robot 0 pi)\<lparr>self_time := 1 / 2\<rparr>) (55, 50, 50, 50) (1 / 200))
   = Ok (\<lparr>s_pos = (1, 0, 0), s_vel = (0, 0, 143 / 40000),
          s_quat = (1, 0, 0, 0), s_omega = (0, - (21 / 400), 21 / 20000)\<rparr>, 101 / 200)"
  using update_wind_zero_amplitude
          [of "(wind_robot 0 pi)\<lparr>self_time := 1 / 2\<rparr>" pi "(55, 50, 50, 50)" "1 / 200"]
  by (simp add: update_example) (simp add: wind_robot_def)


subsection \<open>The angular acceleration\<close>

lemma update_omega:
  "update self w dt = Ok self' \<Longrightarrow>
     s_omega (self_state self') = add3 (s_omega (self_state self))
        (scale3 dt (omega_dot self (s_omega (self_state self)) (snd (forward_map self w))))"
  by (auto simp add: update_def Let_def renormalize_def euler_step_def
        split: outcome.splits prod.splits if_splits)

lemma update_wind_omega:
  "update_wind self w dt = Ok self' \<Longrightarrow>
     s_omega (self_state self') = add3 (s_omega (self_state self))
        (scale3 dt (omega_dot self (s_omega (self_state self)) (snd (forward_map self w))))"
  by (auto simp add: update_wind_def Let_def renormalize_def euler_step_def
        split: outcome.splits prod.splits if_splits option.splits)

lemma omega_dot_euler:
  "omega_dot self omega tau_b
     = mat3_vec (self_J_inv self) (sub3 tau_b (np_cross omega (mat3_vec (self_J self) omega)))"
  unfolding omega_dot_def
  by (cases omega; cases tau_b; cases "self_J self" rule: prod_cases3;
      cases "self_J_inv self" rule: prod_cases3) (auto simp add: algebra_simps)

text \<open>
  Claim C5. The code's \<^verbatim>\<open>J_inv @ (cross(J @ omega, omega) + tau_b)\<close> equals
  \<open>J_inv (tau_b - omega \<times> (J omega))\<close> for every \<open>omega\<close> and every torque, and a step
  of \<^verbatim>\<open>update\<close> or of \<^verbatim>\<open>update_wind\<close> that returns has added \<open>dt\<close> times this
  acceleration, at the torque of the rotor speeds, to the angular velocity of the state.
\<close>

theorem angular_acceleration_euler:
  "omega_dot self omega tau_b
     = mat3_vec (self_J_inv self) (sub3 tau_b (np_cross omega (mat3_vec (self_J self) omega)))
   \<and> (update self omegas_motor dt = Ok self' \<longrightarrow>
        s_omega (self_state self') =
          add3 (s_omega (self_state self))
            (scale3 dt (mat3_vec (self_J_inv self)
               (sub3 (snd (forward_map self omegas_motor))
                  (np_cross (s_omega (self_state self))
                     (mat3_vec (self_J self) (s_omega (self_state self))))))))
   \<and> (update_wind self omegas_motor dt = Ok self'' \<longrightarrow>
        s_omega (self_state self'') =
          add3 (s_omega (self_state self))
            (scale3 dt (mat3_vec (self_J_inv self)
               (sub3 (snd (forward_map self omegas_motor))
                  (np_cross (s_omega (self_state self))
                     (mat3_vec (self_J self) (s_omega (self_state self))))))))"
  using update_omega [of self omegas_motor dt self']
    update_wind_omega [of self omegas_motor dt self''] omega_dot_euler
  by simp

theorem angular_acceleration_euler_witness:
  "update ((wind_robot 2 pi)\<lparr>self_time := 1 / 2\<rparr>) (55, 50, 50, 50) (1 / 200)
     = Ok ((wind_robot 2 pi)
            \<lparr>self_state := \<lparr>s_pos = (1, 0, 0), s_vel = (0, 0, 143 / 40000),
                             s_quat = (1, 0, 0, 0), s_omega = (0, - (21 / 400), 21 / 20000)\<rparr>,
             self_time := 101 / 200\<rparr>)
   \<and> update_wind ((wind_robot 2 pi)\<lparr>self_time := 1 / 2\<rparr>) (55, 50, 50, 50) (1 / 200)
     = Ok ((wind_robot 2 pi)
            \<lparr>self_state := \<lparr>s_pos = (1, 0, 0), s_vel = (1 / 100, 0, 143 / 40000),
                             s_quat = (1, 0, 0, 0), s_omega = (0, - (21 / 400), 21 / 20000)\<rparr>,
             self_time := 101 / 200, self_phi := Some 0, self_wind_force := Some (2, 0, 0)\<rparr>)
   \<and> (0, - (21 / 400), 21 / 20000) =
       add3 (0, 0, 0)
         (scale3 (1 / 200) (mat3_vec ((40, 0, 0), (0, 40, 0), (0, 0, 40))
            (sub3 (snd (forward_map (wind_robot 2 pi) (55, 50, 50, 50)))
               (np_cross (0, 0, 0) (mat3_vec ((1 / 40, 0, 0), (0, 1 / 40, 0), (0, 0, 1 / 40)) (0, 0, 0))))))"
  using angular_acceleration_euler
          [of "(wind_robot 2 pi)\<lparr>self_time := 1 / 2\<rparr>" "(0, 0, 0)" "(0, 0, 0)"
              "(55, 50, 50, 50)" "1 / 200"
              "(wind_robot 2 pi)
                \<lparr>self_state := \<lparr>s_pos = (1, 0, 0), s_vel = (0, 0, 143 / 40000),
                                 s_quat = (1, 0, 0, 0), s_omega = (0, - (21 / 400), 21 / 20000)\<rparr>,
                 self_time := 101 / 200\<rparr>"
              "(wind_robot 2 pi)
                \<lparr>self_state := \<lparr>s_pos = (1, 0, 0), s_vel = (1 / 100, 0, 143 / 40000),
                                 s_quat = (1, 0, 0, 0), s_omega = (0, - (21 / 400), 21 / 20000)\<rparr>,
                 self_time := 101 / 200, self_phi := Some 0, self_wind_force := Some (2, 0, 0)\<rparr>"]
    update_example [of 2 pi] update_wind_example
  by (simp add: wind_robot_def fresh_robot_def)

subsection \<open>The renormalised quaternion\<close>

lemma renormalize_unit:
  assumes "s_quat x \<noteq> (0, 0, 0, 0)"
  shows "\<exists>x'. renormalize x = Ok x' \<and> linalg_norm (list4 (s_quat x')) = 1
          \<and> s_pos x' = s_pos x \<and> s_vel x' = s_vel x \<and> s_omega x' = s_omega x"
proof -
  obtain a b c d where q: "s_quat x = (a, b, c, d)" by (cases "s_quat x")
  define S where "S = a * a + b * b + c * c + d * d"
  have S0: "S \<noteq> 0" using assms q unfolding S_def by (simp add: sumsq4_zero)
  have Sp: "0 < S" using S0 unfolding S_def
    by (smt (verit) zero_le_square add_nonneg_nonneg)
  have n: "linalg_norm (list4 (s_quat x)) = sqrt S" by (simp add: q linalg_norm4 S_def)
  have n0: "sqrt S \<noteq> 0" using Sp by simp
  have sq: "sqrt S * sqrt S = S" using Sp by simp
  have "(a / sqrt S) * (a / sqrt S) + (b / sqrt S) * (b / sqrt S) + (c / sqrt S) * (c / sqrt S)
          + (d / sqrt S) * (d / sqrt S)
        = (a * a + b * b + c * c + d * d) / (sqrt S * sqrt S)"
    by (simp add: add_divide_distrib)
  also have "\<dots> = 1" using sq S0 by (simp add: S_def)
  finally have one: "(a / sqrt S) * (a / sqrt S) + (b / sqrt S) * (b / sqrt S)
          + (c / sqrt S) * (c / sqrt S) + (d / sqrt S) * (d / sqrt S) = 1" .
  show ?thesis
    using n n0 one by (simp add: renormalize_def q Let_def linalg_norm4)
qed

lemma from_quat_nonzero:
  assumes "(q0, q1, q2, q3) \<noteq> (0, 0, 0, 0)"
  shows "\<exists>R. from_quat_as_matrix (q1, q2, q3, q0) = Ok R"
proof -
  have "q1 * q1 + q2 * q2 + q3 * q3 + q0 * q0 \<noteq> 0"
    using assms sumsq4_zero [of q1 q2 q3 q0] by auto
  then show ?thesis
    by (simp add: from_quat_as_matrix_def Let_def linalg_norm4)
qed

lemma post_nonzero:
  assumes "add4 q (scale4 dt (q_dot q omega)) \<noteq> (0, 0, 0, 0)"
  shows "q \<noteq> (0, 0, 0, 0)"
  using assms by (cases omega) (auto simp add: q_dot_def)

lemma renormalize_divides:
  assumes "s_quat x \<noteq> (0, 0, 0, 0)"
  shows "\<exists>x'. renormalize x = Ok x'
          \<and> list4 (s_quat x') = map (\<lambda>c. c / linalg_norm (list4 (s_quat x))) (list4 (s_quat x))
          \<and> linalg_norm (list4 (s_quat x')) = 1
          \<and> s_pos x' = s_pos x \<and> s_vel x' = s_vel x \<and> s_omega x' = s_omega x"
proof -
  obtain a b c d where q: "s_quat x = (a, b, c, d)" by (cases "s_quat x")
  have nz: "(a, b, c, d) \<noteq> (0, 0, 0, 0)" using assms q by simp
  then have n0: "linalg_norm [a, b, c, d] \<noteq> 0"
    using sumsq4_zero [of a b c d] by (auto simp add: linalg_norm4)
  have one: "linalg_norm (map (\<lambda>x. x / linalg_norm [a, b, c, d]) [a, b, c, d]) = 1"
    by (rule unit4 [OF nz])
  show ?thesis
    using n0 one by (simp add: renormalize_def q Let_def)
qed

text \<open>
  Claim C2. For a robot of nonzero mass, every state, every rotor speeds and every time
  step: when the quaternion after the Euler step \<^verbatim>\<open>self.state += x_dot * dt\<close>, before
  the division, is not zero, \<^verbatim>\<open>update\<close> returns, the quaternion it stores is that
  quaternion with each entry divided by its Euclidean norm, and the stored quaternion
  has norm 1; and so for \<^verbatim>\<open>update_wind\<close>, once \<^verbatim>\<open>F0\<close> and \<^verbatim>\<open>omega_w\<close> are assigned.
\<close>

theorem quaternion_unit_after_step:
  assumes m: "self_m self \<noteq> 0"
    and post: "add4 (s_quat (self_state self))
            (scale4 dt (q_dot (s_quat (self_state self)) (s_omega (self_state self))))
          \<noteq> (0, 0, 0, 0)"
  shows "(\<exists>self'. update self omegas_motor dt = Ok self'
            \<and> list4 (s_quat (self_state self')) =
                map (\<lambda>c. c / linalg_norm (list4 (add4 (s_quat (self_state self))
                       (scale4 dt (q_dot (s_quat (self_state self)) (s_omega (self_state self)))))))
                  (list4 (add4 (s_quat (self_state self))
                       (scale4 dt (q_dot (s_quat (self_state self)) (s_omega (self_state self))))))
            \<and> linalg_norm (list4 (s_quat (self_state self'))) = 1)
       \<and> (\<forall>F0 omega_w. self_F0 self = Some F0 \<and> self_omega_w self = Some omega_w \<longrightarrow>
            (\<exists>self'. update_wind self omegas_motor dt = Ok self'
               \<and> list4 (s_quat (self_state self')) =
                   map (\<lambda>c. c / linalg_norm (list4 (add4 (s_quat (self_state self))
                          (scale4 dt (q_dot (s_quat (self_state self)) (s_omega (self_state self)))))))
                     (list4 (add4 (s_quat (self_state self))
                          (scale4 dt (q_dot (s_quat (self_state self)) (s_omega (self_state self))))))
               \<and> linalg_norm (list4 (s_quat (self_state self'))) = 1))"
proof -
  let ?p = "add4 (s_quat (self_state self))
              (scale4 dt (q_dot (s_quat (self_state self)) (s_omega (self_state self))))"
  obtain q0 q1 q2 q3 where q: "s_quat (self_state self) = (q0, q1, q2, q3)"
    by (cases "s_quat (self_state self)")
  have "(q0, q1, q2, q3) \<noteq> (0, 0, 0, 0)" using post_nonzero [OF post] q by simp
  then obtain R where R: "from_quat_as_matrix (q1, q2, q3, q0) = Ok R"
    using from_quat_nonzero by blast
  obtain thrust tau_b where fm: "forward_map self omegas_motor = (thrust, tau_b)"
    by (cases "forward_map self omegas_motor")
  have sq: "s_quat (euler_step (self_state self)
              \<lparr>s_pos = p, s_vel = v, s_quat = q_dot (s_quat (self_state self)) (s_omega (self_state self)),
               s_omega = od\<rparr> dt) = ?p" for p v od
    by (simp add: euler_step_def)
  have rn: "\<exists>x'. renormalize (euler_step (self_state self)
              \<lparr>s_pos = p, s_vel = v, s_quat = q_dot (s_quat (self_state self)) (s_omega (self_state self)),
               s_omega = od\<rparr> dt) = Ok x'
            \<and> list4 (s_quat x') = map (\<lambda>c. c / linalg_norm (list4 ?p)) (list4 ?p)
            \<and> linalg_norm (list4 (s_quat x')) = 1" for p v od
    using renormalize_divides [of "euler_step (self_state self)
              \<lparr>s_pos = p, s_vel = v, s_quat = q_dot (s_quat (self_state self)) (s_omega (self_state self)),
               s_omega = od\<rparr> dt"] post
    unfolding sq by blast
  have upd: "\<exists>self'. update self omegas_motor dt = Ok self'
            \<and> list4 (s_quat (self_state self')) = map (\<lambda>c. c / linalg_norm (list4 ?p)) (list4 ?p)
            \<and> linalg_norm (list4 (s_quat (self_state self'))) = 1"
  proof -
    obtain x' where "renormalize (euler_step (self_state self)
        \<lparr>s_pos = s_vel (self_state self),
         s_vel = add3 (mat3_vec (scale_mat3 (1 / self_m self) R) (0, 0, thrust)) (0, 0, - (981 / 100)),
         s_quat = q_dot (s_quat (self_state self)) (s_omega (self_state self)),
         s_omega = omega_dot self (s_omega (self_state self)) tau_b\<rparr> dt) = Ok x'"
      "list4 (s_quat x') = map (\<lambda>c. c / linalg_norm (list4 ?p)) (list4 ?p)"
      "linalg_norm (list4 (s_quat x')) = 1"
      using rn by blast
    then show ?thesis
      using q R fm m by (simp add: update_def Let_def)
  qed
  have updw: "\<exists>self'. update_wind self omegas_motor dt = Ok self'
               \<and> list4 (s_quat (self_state self')) = map (\<lambda>c. c / linalg_norm (list4 ?p)) (list4 ?p)
               \<and> linalg_norm (list4 (s_quat (self_state self'))) = 1"
    if F: "self_F0 self = Some F0" and W: "self_omega_w self = Some omega_w" for F0 omega_w
  proof -
    obtain x' where "renormalize (euler_step (self_state self)
        \<lparr>s_pos = s_vel (self_state self),
         s_vel = add3 (scale3 (1 / self_m self)
                   (add3 (mat3_vec R (0, 0, thrust)) (scale3 (sin (omega_w * self_time self + 0)) F0)))
                   (0, 0, - (981 / 100)),
         s_quat = q_dot (s_quat (self_state self)) (s_omega (self_state self)),
         s_omega = omega_dot self (s_omega (self_state self)) tau_b\<rparr> dt) = Ok x'"
      "list4 (s_quat x') = map (\<lambda>c. c / linalg_norm (list4 ?p)) (list4 ?p)"
      "linalg_norm (list4 (s_quat x')) = 1"
      using rn by blast
    then show ?thesis
      using q R fm m F W by (simp add: update_wind_def Let_def)
  qed
  from upd updw show ?thesis by blast
qed

theorem quaternion_unit_after_step_witness:
  "(\<exists>self'. update ((wind_robot 2 pi)\<lparr>self_state :=
             \<lparr>s_pos = (1, 0, 0), s_vel = (0, 0, 0), s_quat = (1, 0, 0, 0), s_omega = (2, 0, 0)\<rparr>\<rparr>)
           (55, 50, 50, 50) 1 = Ok self'
        \<and> list4 (s_quat (self_state self')) = [1 / sqrt 2, 1 / sqrt 2, 0, 0]
        \<and> linalg_norm (list4 (s_quat (self_state self'))) = 1)
   \<and> (\<exists>self'. update_wind ((wind_robot 2 pi)\<lparr>self_state :=
             \<lparr>s_pos = (1, 0, 0), s_vel = (0, 0, 0), s_quat = (1, 0, 0, 0), s_omega = (2, 0, 0)\<rparr>\<rparr>)
           (55, 50, 50, 50) 1 = Ok self'
        \<and> list4 (s_quat (self_state self')) = [1 / sqrt 2, 1 / sqrt 2, 0, 0]
        \<and> linalg_norm (list4 (s_quat (self_state self'))) = 1)
   \<and> add4 (1, 0, 0, 0) (scale4 1 (q_dot (1, 0, 0, 0) (2, 0, 0))) = (1, 1, 0, 0)"
  using quaternion_unit_after_step
          [of "(wind_robot 2 pi)\<lparr>self_state :=
             \<lparr>s_pos = (1, 0, 0), s_vel = (0, 0, 0), s_quat = (1, 0, 0, 0), s_omega = (2, 0, 0)\<rparr>\<rparr>"
              1 "(55, 50, 50, 50)"]
  by (simp add: wind_robot_def fresh_robot_def q_dot_def linalg_norm4)

text \<open>
  The quaternion after the Euler step is the product of the quaternion before it with
  \<open>(1, dt / 2 * omega)\<close>, whose norm is at least 1: it is zero only when the quaternion
  before the step is. So the renormalisation of a step never divides by zero, and a step
  of \<^verbatim>\<open>update\<close> or \<^verbatim>\<open>update_wind\<close> either raises or returns a finite state.
\<close>

lemma post_step_norm:
  "dot4 (add4 q (scale4 dt (q_dot q omega))) (add4 q (scale4 dt (q_dot q omega)))
     = dot4 q q * (1 + (dt / 2)\<^sup>2 * np_dot omega omega)"
  by (cases q; cases omega) (simp add: q_dot_def power2_eq_square field_simps)

lemma dot4_zero: "dot4 v v = 0 \<longleftrightarrow> v = (0, 0, 0, 0)"
  by (cases v) (simp add: sumsq4_zero)

lemma post_step_nonzero_iff:
  "add4 q (scale4 dt (q_dot q omega)) \<noteq> (0, 0, 0, 0) \<longleftrightarrow> q \<noteq> (0, 0, 0, 0)"
proof -
  obtain o0 o1 o2 where om: "omega = (o0, o1, o2)" by (cases omega)
  have "0 \<le> (dt / 2)\<^sup>2 * np_dot omega omega"
    by (simp add: om add_nonneg_nonneg)
  then have f: "1 + (dt / 2)\<^sup>2 * np_dot omega omega \<noteq> 0" by linarith
  have "dot4 (add4 q (scale4 dt (q_dot q omega))) (add4 q (scale4 dt (q_dot q omega))) = 0
          \<longleftrightarrow> dot4 q q = 0"
    using f by (simp add: post_step_norm)
  then show ?thesis by (simp add: dot4_zero)
qed

lemma from_quat_zero: "from_quat_as_matrix (0, 0, 0, 0) = Raise ValueError"
  by (simp add: from_quat_as_matrix_def linalg_norm4)

lemma renormalize_after_step:
  assumes "s_quat x \<noteq> (0, 0, 0, 0)" and "s_quat xd = q_dot (s_quat x) (s_omega x)"
  shows "\<exists>x'. renormalize (euler_step x xd dt) = Ok x'"
proof -
  have "s_quat (euler_step x xd dt) \<noteq> (0, 0, 0, 0)"
    using assms post_step_nonzero_iff [of "s_quat x" dt "s_omega x"]
    by (simp add: euler_step_def)
  from renormalize_unit [OF this] show ?thesis by blast
qed

lemma update_never_nan: "update self omegas_motor dt \<noteq> NaN \<and> update_wind self omegas_motor dt \<noteq> NaN"
proof (cases "s_quat (self_state self) = (0, 0, 0, 0)")
  case True
  then show ?thesis by (simp add: update_def update_wind_def from_quat_zero)
next
  case False
  obtain q0 q1 q2 q3 where q: "s_quat (self_state self) = (q0, q1, q2, q3)"
    by (cases "s_quat (self_state self)")
  obtain R where R: "from_quat_as_matrix (q1, q2, q3, q0) = Ok R"
    using from_quat_nonzero [of q0 q1 q2 q3] False q by auto
  obtain thrust tau_b where fm: "forward_map self omegas_motor = (thrust, tau_b)"
    by (cases "forward_map self omegas_motor")
  have rn: "\<exists>x'. renormalize (euler_step (self_state self)
              \<lparr>s_pos = p, s_vel = v, s_quat = q_dot (s_quat (self_state self)) (s_omega (self_state self)),
               s_omega = od\<rparr> dt) = Ok x'" for p v od
    by (rule renormalize_after_step [OF False]) simp
  have u: "update self omegas_motor dt \<noteq> NaN"
  proof (cases "self_m self = 0")
    case True
    then show ?thesis using q R fm by (simp add: update_def Let_def)
  next
    case m: False
    obtain x' where "renormalize (euler_step (self_state self)
        \<lparr>s_pos = s_vel (self_state self),
         s_vel = add3 (mat3_vec (scale_mat3 (1 / self_m self) R) (0, 0, thrust)) (0, 0, - (981 / 100)),
         s_quat = q_dot (s_quat (self_state self)) (s_omega (self_state self)),
         s_omega = omega_dot self (s_omega (self_state self)) tau_b\<rparr> dt) = Ok x'"
      using rn by blast
    then show ?thesis using q R fm m by (simp add: update_def Let_def)
  qed
  have w: "update_wind self omegas_motor dt \<noteq> NaN"
  proof (cases "self_F0 self")
    case None
    then show ?thesis using q R fm by (simp add: update_wind_def Let_def)
  next
    case (Some F0)
    note F = this
    show ?thesis
    proof (cases "self_omega_w self")
      case None
      then show ?thesis using q R fm F by (simp add: update_wind_def Let_def)
    next
      case (Some omega_w)
      show ?thesis
      proof (cases "self_m self = 0")
        case True
        then show ?thesis using q R fm F Some by (simp add: update_wind_def Let_def)
      next
        case m: False
        obtain x' where "renormalize (euler_step (self_state self)
          \<lparr>s_pos = s_vel (self_state self),
           s_vel = add3 (scale3 (1 / self_m self)
                     (add3 (mat3_vec R (0, 0, thrust)) (scale3 (sin (omega_w * self_time self + 0)) F0)))
                     (0, 0, - (981 / 100)),
           s_quat = q_dot (s_quat (self_state self)) (s_omega (self_state self)),
           s_omega = omega_dot self (s_omega (self_state self)) tau_b\<rparr> dt) = Ok x'"
          using rn by blast
        then show ?thesis using q R fm F Some m by (simp add: update_wind_def Let_def)
      qed
    qed
  qed
  from u w show ?thesis by simp
qed

subsection \<open>Vectors\<close>

lemma dot_pos: "v \<noteq> (0, 0, 0) \<Longrightarrow> 0 < np_dot v v"
proof -
  assume "v \<noteq> (0, 0, 0)"
  obtain a b c where v: "v = (a, b, c)" by (cases v)
  have "a * a + b * b + c * c \<noteq> 0" using \<open>v \<noteq> (0, 0, 0)\<close> v by (simp add: sumsq3_zero)
  moreover have "0 \<le> a * a + b * b + c * c" by (simp add: add_nonneg_nonneg)
  ultimately have "0 < a * a + b * b + c * c" by linarith
  then show ?thesis using v by simp
qed

lemma normalized3_eq:
  "normalized3 v = (if v = (0, 0, 0) then NaN else Ok (scale3 (1 / sqrt (np_dot v v)) v))"
proof -
  obtain a b c where v: "v = (a, b, c)" by (cases v)
  show ?thesis
    by (simp add: v normalized3_def normalized_def linalg_norm3 Let_def sumsq3_zero)
qed

lemma dot_scale: "np_dot (scale3 c u) (scale3 d v) = c * d * np_dot u v"
  by (cases u; cases v) (simp add: algebra_simps)

lemma dot_scale_l: "np_dot (scale3 c u) v = c * np_dot u v"
  by (cases u; cases v) (simp add: algebra_simps)

lemma dot_scale_r: "np_dot u (scale3 c v) = c * np_dot u v"
  by (cases u; cases v) (simp add: algebra_simps)

lemma scale_scale: "scale3 c (scale3 d v) = scale3 (c * d) v"
  by (cases v) simp

lemma scale_one: "scale3 1 v = v"
  by (cases v) simp

lemma dot_add_r: "np_dot u (add3 v w) = np_dot u v + np_dot u w"
  by (cases u; cases v; cases w) (simp add: algebra_simps)

lemma dot_add_l: "np_dot (add3 v w) u = np_dot v u + np_dot w u"
  by (cases u; cases v; cases w) (simp add: algebra_simps)

lemma dot_comm: "np_dot u v = np_dot v u"
  by (cases u; cases v) (simp add: algebra_simps)

lemma unit_scaled:
  assumes "v \<noteq> (0, 0, 0)"
  shows "np_dot (scale3 (1 / sqrt (np_dot v v)) v) (scale3 (1 / sqrt (np_dot v v)) v) = 1"
proof -
  have p: "0 < np_dot v v" using dot_pos [OF assms] .
  then have "sqrt (np_dot v v) * sqrt (np_dot v v) = np_dot v v" by simp
  then show ?thesis using p by (simp add: dot_scale)
qed

lemma lagrange:
  "(np_dot a m)\<^sup>2 + np_dot (np_cross a m) (np_cross a m) = np_dot a a * np_dot m m"
  by (cases a; cases m) (simp add: power2_eq_square algebra_simps)

lemma rotate_identity:
  "quat_mult (np_dot a m, np_cross a m)
      (quat_mult (0, a) (quat_conjugate (np_dot a m, np_cross a m)))
   = (0, scale3 (np_dot a a) (sub3 (scale3 (2 * np_dot a m) m) (scale3 (np_dot m m) a)))"
  by (cases a; cases m) (simp add: algebra_simps)

lemma norm4_pair: "linalg_norm (list4 (w, v)) = sqrt (w\<^sup>2 + np_dot v v)"
  by (cases v) (simp add: linalg_norm4 power2_eq_square algebra_simps)

lemma sub_add_cancel3: "sub3 (add3 a b) a = b"
  by (cases a; cases b) simp

lemma cross_scale_self: "np_cross u (scale3 k u) = (0, 0, 0)"
  by (cases u) simp

lemma opposite_units:
  assumes "add3 (scale3 c u) (scale3 d v) = (0, 0, 0)" and "d \<noteq> 0"
  shows "v = scale3 (- c / d) u"
proof -
  obtain u0 u1 u2 where u: "u = (u0, u1, u2)" by (cases u)
  obtain v0 v1 v2 where v: "v = (v0, v1, v2)" by (cases v)
  from assms(1) have "c * u0 + d * v0 = 0" "c * u1 + d * v1 = 0" "c * u2 + d * v2 = 0"
    by (simp_all add: u v)
  then have "v0 = - c / d * u0" "v1 = - c / d * u1" "v2 = - c / d * u2"
    using assms(2) by (simp_all add: field_simps)
  then show ?thesis by (simp add: u v)
qed

lemma midpoint_nonzero:
  assumes f: "v_from \<noteq> (0, 0, 0)" and t: "v_to \<noteq> (0, 0, 0)"
    and na: "\<not> antiparallel v_from v_to"
  shows "add3 (scale3 (1 / sqrt (np_dot v_from v_from)) v_from)
              (scale3 (1 / sqrt (np_dot v_to v_to)) v_to) \<noteq> (0, 0, 0)"
proof
  let ?nf = "sqrt (np_dot v_from v_from)" and ?nt = "sqrt (np_dot v_to v_to)"
  assume z: "add3 (scale3 (1 / ?nf) v_from) (scale3 (1 / ?nt) v_to) = (0, 0, 0)"
  have pf: "0 < ?nf" using dot_pos [OF f] by simp
  have pt: "0 < ?nt" using dot_pos [OF t] by simp
  have "1 / ?nt \<noteq> 0" using pt by simp
  from opposite_units [OF z this]
  have vt: "v_to = scale3 (- (?nt / ?nf)) v_from" using pt by simp
  have k: "0 < ?nt / ?nf" using pf pt by simp
  have cr: "np_cross v_from v_to = (0, 0, 0)"
    using cross_scale_self [of v_from "- (?nt / ?nf)"] vt by simp
  have "np_dot v_from v_to = - ((?nt / ?nf) * np_dot v_from v_from)"
    using dot_scale_r [of v_from "- (?nt / ?nf)" v_from] vt by simp
  moreover have "0 < (?nt / ?nf) * np_dot v_from v_from"
    using k dot_pos [OF f] by (rule mult_pos_pos)
  ultimately have "np_dot v_from v_to < 0" by linarith
  with cr show False using na by (simp add: antiparallel_def)
qed

lemma midpoint_twice:
  assumes a: "np_dot a a = 1" and b: "np_dot b b = 1" and s: "add3 a b \<noteq> (0, 0, 0)"
  shows "scale3 (2 * np_dot a (scale3 (1 / sqrt (np_dot (add3 a b) (add3 a b))) (add3 a b)))
           (scale3 (1 / sqrt (np_dot (add3 a b) (add3 a b))) (add3 a b)) = add3 a b"
proof -
  let ?s = "add3 a b"
  let ?n = "sqrt (np_dot ?s ?s)"
  have p: "0 < np_dot ?s ?s" using dot_pos [OF s] .
  have nn: "?n * ?n = np_dot ?s ?s" using p by simp
  have ss: "np_dot ?s ?s = 2 + 2 * np_dot a b"
    using a b dot_comm [of b a] by (simp add: dot_add_l dot_add_r)
  have as: "np_dot a ?s = 1 + np_dot a b" using a by (simp add: dot_add_r)
  have "2 * np_dot a (scale3 (1 / ?n) ?s) * (1 / ?n) = 2 * np_dot a ?s / (?n * ?n)"
    by (simp add: dot_scale_r)
  also have "\<dots> = 1" using nn ss as p by simp
  finally have "2 * np_dot a (scale3 (1 / ?n) ?s) * (1 / ?n) = 1" .
  then show ?thesis using scale_scale [of "2 * np_dot a (scale3 (1 / ?n) ?s)" "1 / ?n" ?s]
    by (simp add: scale_one)
qed


subsection \<open>Normalisation\<close>

text \<open>
  Claim C7, as the code has it. On the zero 4-vector \<^verbatim>\<open>normalized\<close> raises nothing:
  numpy divides \<^verbatim>\<open>0.0 / 0.0\<close> and the vector returned holds \<^verbatim>\<open>nan\<close> in its four
  entries. On every other 4-vector it returns the vector divided by its Euclidean
  norm, and the result has norm 1.
\<close>

theorem normalized_4vector:
  "normalized [0, 0, 0, 0] = NaN
   \<and> ((a, b, c, d) \<noteq> (0, 0, 0, 0) \<longrightarrow>
        normalized [a, b, c, d] = Ok (map (\<lambda>x. x / linalg_norm [a, b, c, d]) [a, b, c, d])
        \<and> linalg_norm (map (\<lambda>x. x / linalg_norm [a, b, c, d]) [a, b, c, d]) = 1)"
proof -
  have z: "normalized [0, 0, 0, 0] = NaN"
    by (simp add: normalized_def linalg_norm4)
  have nz: "normalized [a, b, c, d] = Ok (map (\<lambda>x. x / linalg_norm [a, b, c, d]) [a, b, c, d])"
    if "(a, b, c, d) \<noteq> (0, 0, 0, 0)"
    using that sumsq4_zero [of a b c d] by (auto simp add: normalized_def linalg_norm4 Let_def)
  from z nz unit4 show ?thesis by blast
qed


theorem normalized_4vector_witness:
  "normalized [3, 0, 4, 0] = Ok (map (\<lambda>x. x / linalg_norm [3, 0, 4, 0]) [3, 0, 4, 0])
   \<and> linalg_norm (map (\<lambda>x. x / linalg_norm [3, 0, 4, 0]) [3, 0, 4, 0]) = 1"
  using normalized_4vector [of 3 0 4 0] by simp

text \<open>
  The zero 4-vector does not make \<^verbatim>\<open>normalized\<close> fail with an error.
\<close>

theorem normalized_zero_no_error: "\<not> raises (normalized [0, 0, 0, 0])"
  by (simp add: normalized_def linalg_norm4)

subsection \<open>The quaternion between two vectors\<close>

lemma list3_scaled:
  "list3 (scale3 (1 / sqrt (np_dot v v)) v) = map (\<lambda>c. c / linalg_norm (list3 v)) (list3 v)"
  by (cases v) (simp add: linalg_norm3)

lemma norm3_dot: "linalg_norm (list3 v) = sqrt (np_dot v v)"
  by (cases v) (simp add: linalg_norm3)

text \<open>
  Claim C8. For nonzero \<open>v_from\<close> and \<open>v_to\<close> that are not antiparallel,
  \<^verbatim>\<open>quaternion_from_vectors\<close> returns the quaternion of the midpoint method: with
  \<open>a\<close> the vector \<open>v_from\<close> divided by its norm, \<open>b\<close> the vector \<open>v_to\<close> divided by
  its norm and \<open>m\<close> their sum divided by its norm (the three results of
  \<^verbatim>\<open>normalized\<close>, each of norm 1), it is \<open>(a \<bullet> m, a \<times> m)\<close>; it has norm 1; and it
  rotates \<open>a\<close> onto \<open>b\<close>: conjugating the pure quaternion \<open>(0, a)\<close> by it gives
  \<open>(0, b)\<close>.
\<close>

theorem quaternion_from_vectors_midpoint:
  assumes f: "v_from \<noteq> (0, 0, 0)" and t: "v_to \<noteq> (0, 0, 0)"
    and na: "\<not> antiparallel v_from v_to"
  shows "\<exists>a b m q.
             list3 a = map (\<lambda>c. c / linalg_norm (list3 v_from)) (list3 v_from)
           \<and> list3 b = map (\<lambda>c. c / linalg_norm (list3 v_to)) (list3 v_to)
           \<and> list3 m = map (\<lambda>c. c / linalg_norm (list3 (add3 a b))) (list3 (add3 a b))
           \<and> linalg_norm (list3 a) = 1 \<and> linalg_norm (list3 b) = 1
           \<and> linalg_norm (list3 m) = 1
           \<and> normalized3 v_from = Ok a \<and> normalized3 v_to = Ok b
           \<and> normalized3 (add3 a b) = Ok m
           \<and> quaternion_from_vectors v_from v_to = Ok q
           \<and> q = (np_dot a m, np_cross a m)
           \<and> linalg_norm (list4 q) = 1
           \<and> quat_mult q (quat_mult (0, a) (quat_conjugate q)) = (0, b)"
proof -
  define a where "a = scale3 (1 / sqrt (np_dot v_from v_from)) v_from"
  define b where "b = scale3 (1 / sqrt (np_dot v_to v_to)) v_to"
  define m where "m = scale3 (1 / sqrt (np_dot (add3 a b) (add3 a b))) (add3 a b)"
  define q where "q = (np_dot a m, np_cross a m)"
  have la: "list3 a = map (\<lambda>c. c / linalg_norm (list3 v_from)) (list3 v_from)"
    unfolding a_def by (rule list3_scaled)
  have lb: "list3 b = map (\<lambda>c. c / linalg_norm (list3 v_to)) (list3 v_to)"
    unfolding b_def by (rule list3_scaled)
  have lm: "list3 m = map (\<lambda>c. c / linalg_norm (list3 (add3 a b))) (list3 (add3 a b))"
    unfolding m_def by (rule list3_scaled)
  have na': "normalized3 v_from = Ok a" using f by (simp add: normalized3_eq a_def)
  have nb': "normalized3 v_to = Ok b" using t by (simp add: normalized3_eq b_def)
  have s: "add3 a b \<noteq> (0, 0, 0)" unfolding a_def b_def by (rule midpoint_nonzero [OF f t na])
  have nm: "normalized3 (add3 a b) = Ok m" using s by (simp add: normalized3_eq m_def)
  have ua: "np_dot a a = 1" unfolding a_def by (rule unit_scaled [OF f])
  have ub: "np_dot b b = 1" unfolding b_def by (rule unit_scaled [OF t])
  have um: "np_dot m m = 1" unfolding m_def by (rule unit_scaled [OF s])
  have n1: "linalg_norm (list3 a) = 1" "linalg_norm (list3 b) = 1" "linalg_norm (list3 m) = 1"
    by (simp_all add: norm3_dot ua ub um)
  have qv: "quaternion_from_vectors v_from v_to = Ok q"
    by (simp add: quaternion_from_vectors_def na' nb' nm q_def)
  have "(np_dot a m)\<^sup>2 + np_dot (np_cross a m) (np_cross a m) = 1"
    using lagrange [of a m] ua um by simp
  then have nq: "linalg_norm (list4 q) = 1" by (simp add: q_def norm4_pair)
  have tw: "scale3 (2 * np_dot a m) m = add3 a b"
    unfolding m_def by (rule midpoint_twice [OF ua ub s])
  have rot: "quat_mult q (quat_mult (0, a) (quat_conjugate q)) = (0, b)"
    unfolding q_def by (simp add: rotate_identity ua um tw scale_one sub_add_cancel3)
  from la lb lm n1 na' nb' nm qv nq rot q_def show ?thesis by blast
qed

theorem quaternion_from_vectors_midpoint_witness:
  "quaternion_from_vectors (0, 0, 2) (2, 0, 0) = Ok (1 / sqrt 2, 0, 1 / sqrt 2, 0)
   \<and> linalg_norm (list4 (1 / sqrt 2, 0, 1 / sqrt 2, 0)) = 1
   \<and> quat_mult (1 / sqrt 2, 0, 1 / sqrt 2, 0)
        (quat_mult (0, 0, 0, 1) (quat_conjugate (1 / sqrt 2, 0, 1 / sqrt 2, 0))) = (0, 1, 0, 0)
   \<and> map (\<lambda>c. c / linalg_norm (list3 (0, 0, 2))) (list3 (0, 0, 2)) = [0, 0, 1]
   \<and> map (\<lambda>c. c / linalg_norm (list3 (2, 0, 0))) (list3 (2, 0, 0)) = [1, 0, 0]"
proof -
  have s4: "sqrt 4 = (2 :: real)" by simp
  have na: "\<not> antiparallel (0, 0, 2) (2, 0, 0)" by (simp add: antiparallel_def)
  have f: "(0, 0, 2) \<noteq> (0 :: real, 0 :: real, 0 :: real)" by simp
  have t: "(2, 0, 0) \<noteq> (0 :: real, 0 :: real, 0 :: real)" by simp
  from quaternion_from_vectors_midpoint [OF f t na]
  obtain a b m q where
    la: "list3 a = map (\<lambda>c. c / linalg_norm (list3 (0, 0, 2))) (list3 (0, 0, 2))"
    and lb: "list3 b = map (\<lambda>c. c / linalg_norm (list3 (2, 0, 0))) (list3 (2, 0, 0))"
    and lm: "list3 m = map (\<lambda>c. c / linalg_norm (list3 (add3 a b))) (list3 (add3 a b))"
    and qv: "quaternion_from_vectors (0, 0, 2) (2, 0, 0) = Ok q"
    and q: "q = (np_dot a m, np_cross a m)"
    and nq: "linalg_norm (list4 q) = 1"
    and rot: "quat_mult q (quat_mult (0, a) (quat_conjugate q)) = (0, b)"
    by blast
  have a: "a = (0, 0, 1)" using la by (cases a) (simp add: linalg_norm3 s4)
  have b: "b = (1, 0, 0)" using lb by (cases b) (simp add: linalg_norm3 s4)
  have m: "m = (1 / sqrt 2, 0, 1 / sqrt 2)" using lm by (cases m) (simp add: a b linalg_norm3)
  have q': "q = (1 / sqrt 2, 0, 1 / sqrt 2, 0)" by (simp add: q a m)
  from qv nq rot a b show ?thesis unfolding q' by (simp add: linalg_norm3 s4)
qed


subsection \<open>The mixer and the forward model\<close>

lemma det4_mixer_B:
  "det4 (mixer_B self)
     = 8 * (self_arm_length self)\<^sup>2 * self_constant_drag self * (self_constant_thrust self)^3"
  unfolding mixer_B_def
  by (simp add: cofactor4_def Let_def algebra_simps power2_eq_square power3_eq_cube)

lemma linalg_inv4_mixer_B:
  assumes k: "self_constant_thrust self \<noteq> 0" and l: "self_arm_length self \<noteq> 0"
    and d: "self_constant_drag self \<noteq> 0"
  shows "linalg_inv4 (mixer_B self) =
     Ok ((1 / (4 * self_constant_thrust self), 0,
            - (1 / (2 * self_arm_length self * self_constant_thrust self)),
            1 / (4 * self_constant_drag self)),
         (1 / (4 * self_constant_thrust self),
            - (1 / (2 * self_arm_length self * self_constant_thrust self)), 0,
            - (1 / (4 * self_constant_drag self))),
         (1 / (4 * self_constant_thrust self), 0,
            1 / (2 * self_arm_length self * self_constant_thrust self),
            1 / (4 * self_constant_drag self)),
         (1 / (4 * self_constant_thrust self),
            1 / (2 * self_arm_length self * self_constant_thrust self), 0,
            - (1 / (4 * self_constant_drag self))))"
  unfolding linalg_inv4_def mixer_B_def
  using k l d
  by (simp add: cofactor4_def Let_def)


lemma mixer_B_inverse:
  assumes k: "self_constant_thrust self \<noteq> 0" and l: "self_arm_length self \<noteq> 0"
    and d: "self_constant_drag self \<noteq> 0"
    and i: "linalg_inv4 (mixer_B self) = Ok B_inv"
  shows "mat4_vec (mixer_B self) (mat4_vec B_inv v) = v \<and> mat4_vec B_inv (mat4_vec (mixer_B self) v) = v"
proof -
  obtain v0 v1 v2 v3 where v: "v = (v0, v1, v2, v3)" by (cases v)
  show ?thesis
    using i k l d unfolding linalg_inv4_mixer_B [OF k l d] v
    by (auto simp add: mixer_B_def field_simps)
qed

lemma forward_map_mixer:
  assumes k: "self_constant_thrust self \<noteq> 0" and l: "self_arm_length self \<noteq> 0"
    and d: "self_constant_drag self \<noteq> 0"
    and i: "linalg_inv4 (mixer_B self) = Ok B_inv"
    and s: "mat4_vec B_inv (thrust, tau_x, tau_y, tau_z) = (s0, s1, s2, s3)"
    and n: "0 \<le> s0" "0 \<le> s1" "0 \<le> s2" "0 \<le> s3"
  shows "mixer self thrust (tau_x, tau_y, tau_z) = Ok (sqrt s0, sqrt s1, sqrt s2, sqrt s3)
       \<and> forward_map self (sqrt s0, sqrt s1, sqrt s2, sqrt s3)
           = (thrust, (2 * tau_x, 2 * tau_y, tau_z))"
proof -
  have m: "mixer self thrust (tau_x, tau_y, tau_z) = Ok (sqrt s0, sqrt s1, sqrt s2, sqrt s3)"
    using i s n by (simp add: mixer_def np_clip0_def max_def del: mat4_vec.simps)
  have e: "s0 = thrust / (4 * self_constant_thrust self)
                 - tau_y / (2 * self_arm_length self * self_constant_thrust self)
                 + tau_z / (4 * self_constant_drag self)"
          "s1 = thrust / (4 * self_constant_thrust self)
                 - tau_x / (2 * self_arm_length self * self_constant_thrust self)
                 - tau_z / (4 * self_constant_drag self)"
          "s2 = thrust / (4 * self_constant_thrust self)
                 + tau_y / (2 * self_arm_length self * self_constant_thrust self)
                 + tau_z / (4 * self_constant_drag self)"
          "s3 = thrust / (4 * self_constant_thrust self)
                 + tau_x / (2 * self_arm_length self * self_constant_thrust self)
                 - tau_z / (4 * self_constant_drag self)"
    using i s unfolding linalg_inv4_mixer_B [OF k l d] by auto
  have "forward_map self (sqrt s0, sqrt s1, sqrt s2, sqrt s3)
           = (thrust, (2 * tau_x, 2 * tau_y, tau_z))"
    using n k l d by (simp add: e field_simps)
  with m show ?thesis by simp
qed

lemma linalg_inv4_fresh:
  "linalg_inv4 (mixer_B (wind_robot wind angular_velocity)) =
     Ok ((250, 0, - 2000, 25000), (250, - 2000, 0, - 25000),
         (250, 0, 2000, 25000), (250, 2000, 0, - 25000))"
proof -
  have k: "self_constant_thrust (wind_robot wind angular_velocity) \<noteq> 0"
     "self_arm_length (wind_robot wind angular_velocity) \<noteq> 0"
     "self_constant_drag (wind_robot wind angular_velocity) \<noteq> 0"
    by (simp_all add: wind_robot_def fresh_robot_def)
  show ?thesis
    using linalg_inv4_mixer_B [OF k] by (simp add: wind_robot_def fresh_robot_def)
qed

lemma mixer_fresh:
  "mixer fresh_robot 10 (1 / 10, 0, 0) = Ok (sqrt 2500, sqrt 2300, sqrt 2500, sqrt 2700)"
  by (simp add: mixer_def linalg_inv4_mixer_B fresh_robot_def np_clip0_def)

text \<open>
  Claim C1 says that the forward thrust and torque model of the integrator gives the
  commanded thrust and torques back from the rotor speeds of the mixer. The code at the
  command of thrust 10 and torques \<open>(1/10, 0, 0)\<close>, on the robot \<^verbatim>\<open>Robot()\<close>: the
  squared speeds of the mixer are 2500, 2300, 2500 and 2700, none negative, and the
  forward model returns the thrust 10 and the torques \<open>(1/5, 0, 0)\<close>. The roll torque
  comes back doubled: the rows of \<^verbatim>\<open>B\<close> hold \<^verbatim>\<open>arm_length\<close> where lines 104 and 105
  of \<^verbatim>\<open>update\<close> multiply by \<^verbatim>\<open>2 * self.arm_length\<close>.
\<close>

theorem mixer_forward_map_mismatch:
  "mixer fresh_robot 10 (1 / 10, 0, 0) = Ok (sqrt 2500, sqrt 2300, sqrt 2500, sqrt 2700)
   \<and> forward_map fresh_robot (sqrt 2500, sqrt 2300, sqrt 2500, sqrt 2700) = (10, (1 / 5, 0, 0))
   \<and> (10, (1 / 5, 0, 0)) \<noteq> (10 :: real, (1 / 10 :: real, 0 :: real, 0 :: real))"
  by (simp add: mixer_fresh) (simp add: fresh_robot_def)

subsection \<open>The speeds the controller returns\<close>

lemma quaternion_from_vectors_ok:
  assumes f: "v_from \<noteq> (0, 0, 0)" and t: "v_to \<noteq> (0, 0, 0)"
    and na: "\<not> antiparallel v_from v_to"
  shows "\<exists>q. quaternion_from_vectors v_from v_to = Ok q"
proof -
  have "quaternion_from_vectors v_from v_to
          = Ok (case normalized3 (add3 (scale3 (1 / sqrt (np_dot v_from v_from)) v_from)
                                      (scale3 (1 / sqrt (np_dot v_to v_to)) v_to)) of
                  Ok v_mid \<Rightarrow> (np_dot (scale3 (1 / sqrt (np_dot v_from v_from)) v_from) v_mid,
                               np_cross (scale3 (1 / sqrt (np_dot v_from v_from)) v_from) v_mid))"
    using f t midpoint_nonzero [OF f t na]
    by (simp add: quaternion_from_vectors_def normalized3_eq)
  then show ?thesis by blast
qed

lemma scaled_nonzero:
  assumes "v \<noteq> (0, 0, 0)"
  shows "scale3 (1 / sqrt (np_dot v v)) v \<noteq> (0, 0, 0)"
proof
  assume "scale3 (1 / sqrt (np_dot v v)) v = (0, 0, 0)"
  then have "np_dot (scale3 (1 / sqrt (np_dot v v)) v) (scale3 (1 / sqrt (np_dot v v)) v) = 0"
    by simp
  then show False using unit_scaled [OF assms] by simp
qed

lemma antiparallel_up:
  "antiparallel (0, 0, 1) (f0, f1, f2) \<longleftrightarrow> f0 = 0 \<and> f1 = 0 \<and> f2 < 0"
  by (auto simp add: antiparallel_def)

lemma reference_quat_defined:
  "(\<exists>q. reference_quat f = Ok q) \<longleftrightarrow> f \<noteq> (0, 0, 0) \<and> \<not> antiparallel (0, 0, 1) f"
proof (cases "f = (0, 0, 0)")
  case True
  then show ?thesis by (simp add: reference_quat_def normalized3_eq)
next
  case False
  obtain f0 f1 f2 where f: "f = (f0, f1, f2)" by (cases f)
  let ?n = "sqrt (np_dot f f)"
  have n: "0 < ?n" using dot_pos [OF False] by simp
  have rq: "reference_quat f = quaternion_from_vectors (0, 0, 1) (scale3 (1 / ?n) f)"
    using False by (simp add: reference_quat_def normalized3_eq)
  have nz: "scale3 (1 / ?n) f \<noteq> (0, 0, 0)" by (rule scaled_nonzero [OF False])
  have ap: "antiparallel (0, 0, 1) (scale3 (1 / ?n) f) \<longleftrightarrow> antiparallel (0, 0, 1) f"
    using n unfolding f by (simp add: antiparallel_up divide_less_0_iff)
  show ?thesis
  proof (cases "antiparallel (0, 0, 1) f")
    case na: False
    then have "\<exists>q. quaternion_from_vectors (0, 0, 1) (scale3 (1 / ?n) f) = Ok q"
      using quaternion_from_vectors_ok [of "(0, 0, 1)" "scale3 (1 / ?n) f"] nz ap by simp
    then show ?thesis using rq False na by simp
  next
    case True
    then have c: "f0 = 0" "f1 = 0" "f2 < 0" using f by (simp_all add: antiparallel_up)
    have sq: "sqrt (f2 * f2) = - f2" using c by (simp add: real_sqrt_mult_self)
    have "quaternion_from_vectors (0, 0, 1) (scale3 (1 / ?n) f) = NaN"
      using c sq by (simp add: f quaternion_from_vectors_def normalized3_eq)
    then show ?thesis using rq True by simp
  qed
qed

lemma motor_speeds_nonneg:
  "motor_speeds B_inv thrust tau = (w0, w1, w2, w3) \<Longrightarrow> 0 \<le> w0 \<and> 0 \<le> w1 \<and> 0 \<le> w2 \<and> 0 \<le> w3"
  by (cases tau; cases "mat4_vec B_inv (thrust, tau)")
     (auto simp add: np_clip0_def simp del: mat4_vec.simps)

lemma linalg_inv4_defined: "(\<exists>Bi. linalg_inv4 M = Ok Bi) \<longleftrightarrow> det4 M \<noteq> 0"
  by (simp add: linalg_inv4_def Let_def)

lemma linalg_inv4_cases: "linalg_inv4 M = Raise LinAlgError \<or> (\<exists>Bi. linalg_inv4 M = Ok Bi)"
  by (simp add: linalg_inv4_def Let_def)

lemma from_quat_defined:
  "(\<exists>R. from_quat_as_matrix (q1, q2, q3, q0) = Ok R) \<longleftrightarrow> (q0, q1, q2, q3) \<noteq> (0, 0, 0, 0)"
  using sumsq4_zero [of q1 q2 q3 q0]
  by (auto simp add: from_quat_as_matrix_def Let_def linalg_norm4)

lemma mixer_nan_not_ok: "mixer_nan self \<noteq> Ok w"
  using linalg_inv4_cases [of "mixer_B self"] by (auto simp add: mixer_nan_def)

lemma mixer_defined: "(\<exists>w. mixer self thrust tau = Ok w) \<longleftrightarrow> det4 (mixer_B self) \<noteq> 0"
  using linalg_inv4_defined [of "mixer_B self"]
  by (cases "linalg_inv4 (mixer_B self)") (simp_all add: mixer_def del: split_paired_Ex)

lemma control_defined:
  "(\<exists>w. control self p_d_I = Ok w) \<longleftrightarrow>
     s_quat (self_state self) \<noteq> (0, 0, 0, 0) \<and> det4 (mixer_B self) \<noteq> 0
     \<and> desired_force self p_d_I \<noteq> (0, 0, 0)
     \<and> \<not> antiparallel (0, 0, 1) (desired_force self p_d_I)"
proof -
  obtain q0 q1 q2 q3 where q: "s_quat (self_state self) = (q0, q1, q2, q3)"
    by (cases "s_quat (self_state self)")
  let ?f = "desired_force self p_d_I"
  show ?thesis
  proof (cases "from_quat_as_matrix (q1, q2, q3, q0)")
    case (Raise e)
    then show ?thesis using from_quat_defined [of q1 q2 q3 q0] q
      by (simp add: control_def Let_def)
  next
    case NaN
    then show ?thesis using from_quat_defined [of q1 q2 q3 q0] q
      by (simp add: control_def Let_def)
  next
    case (Ok R)
    then have qn: "(q0, q1, q2, q3) \<noteq> (0, 0, 0, 0)"
      using from_quat_defined [of q1 q2 q3 q0] by blast
    show ?thesis
    proof (cases "reference_quat ?f")
      case (Raise e)
      then show ?thesis using Ok q reference_quat_defined [of ?f]
        by (simp add: control_def Let_def)
    next
      case NaN
      then show ?thesis using Ok q reference_quat_defined [of ?f] mixer_nan_not_ok [of self]
        by (simp add: control_def Let_def)
    next
      case rq: (Ok q_ref)
      then have fd: "?f \<noteq> (0, 0, 0) \<and> \<not> antiparallel (0, 0, 1) ?f"
        using reference_quat_defined [of ?f] by blast
      have "control self p_d_I =
              mixer self (max 0 (snd (snd (mat3_vec (transpose3 R) ?f))))
                (attitude_torque self (attitude_error q_ref (s_quat (self_state self)))
                   (s_omega (self_state self)))"
        using Ok rq q by (simp add: control_def Let_def)
      then show ?thesis
        using q qn fd mixer_defined by simp
    qed
  qed
qed

lemma control_result:
  assumes "control self p_d_I = Ok w"
  shows "\<exists>R B_inv q_ref.
      from_quat_as_matrix (case s_quat (self_state self) of (q0, q1, q2, q3) \<Rightarrow> (q1, q2, q3, q0)) = Ok R
      \<and> linalg_inv4 (mixer_B self) = Ok B_inv
      \<and> reference_quat (desired_force self p_d_I) = Ok q_ref
      \<and> w = motor_speeds B_inv (max 0 (snd (snd (mat3_vec (transpose3 R) (desired_force self p_d_I)))))
               (attitude_torque self (attitude_error q_ref (s_quat (self_state self)))
                  (s_omega (self_state self)))"
  using assms mixer_nan_not_ok [of self w]
  by (auto simp add: control_def Let_def mixer_def split: outcome.splits)

lemma reference_quat_up:
  assumes "0 < c"
  shows "reference_quat (0, 0, c) = Ok (1, (0, 0, 0))"
proof -
  have n: "normalized3 (0, 0, c) = Ok (0, 0, 1)" if "0 < c" for c :: real
    using that by (simp add: normalized3_eq)
  have "add3 (0, 0, 1) (0, 0, 1) = (0, 0, 2 :: real)" by simp
  then show ?thesis
    using n [OF assms] n [of 1] n [of 2]
    by (simp add: reference_quat_def quaternion_from_vectors_def)
qed

lemma reference_quat_down:
  "reference_quat (0, 0, - 1) = NaN"
  by (simp add: reference_quat_def quaternion_from_vectors_def normalized3_eq)

lemma from_quat_fresh:
  "from_quat_as_matrix (case s_quat (self_state (wind_robot wind angular_velocity)) of
      (q0, q1, q2, q3) \<Rightarrow> (q1, q2, q3, q0)) = Ok ((1, 0, 0), (0, 1, 0), (0, 0, 1))"
  by (simp add: wind_robot_def fresh_robot_def from_quat_as_matrix_def linalg_norm4)

lemma control_fresh:
  "control (wind_robot wind angular_velocity) (1, 0, 0)
     = Ok (sqrt (4905 / 2), sqrt (4905 / 2), sqrt (4905 / 2), sqrt (4905 / 2))"
proof -
  have f: "desired_force (wind_robot wind angular_velocity) (1, 0, 0) = (0, 0, 981 / 100)"
    by (simp add: desired_force_def wind_robot_def fresh_robot_def)
  have r: "reference_quat (0, 0, 981 / 100) = Ok (1, (0, 0, 0))"
    by (rule reference_quat_up) simp
  have t: "attitude_torque (wind_robot wind angular_velocity)
             (attitude_error (1, 0, 0, 0) (s_quat (self_state (wind_robot wind angular_velocity))))
             (s_omega (self_state (wind_robot wind angular_velocity))) = (0, 0, 0)"
    by (simp add: wind_robot_def fresh_robot_def attitude_error_def flip_sign_def
          attitude_torque_def)
  show ?thesis
    unfolding control_def Let_def f r from_quat_fresh
    by (simp add: t mixer_def linalg_inv4_fresh np_clip0_def)
qed

text \<open>
  Claim C6, as the code has it. \<^verbatim>\<open>control\<close> returns finite rotor speeds exactly when
  the orientation quaternion of the state is not zero, the mixer matrix is invertible,
  and the desired world-frame force is neither zero nor antiparallel to the world's up
  \<open>(0, 0, 1)\<close>. It then returns exactly 4 speeds, none negative: the thrust commanded is
  the maximum of 0 and the z component of the body-frame force, and each speed is the
  square root of a squared speed of the mixer clipped below at 0.
\<close>

theorem control_speeds_nonnegative:
  "((\<exists>w. control self p_d_I = Ok w) \<longleftrightarrow>
      s_quat (self_state self) \<noteq> (0, 0, 0, 0) \<and> det4 (mixer_B self) \<noteq> 0
      \<and> desired_force self p_d_I \<noteq> (0, 0, 0)
      \<and> \<not> antiparallel (0, 0, 1) (desired_force self p_d_I))
   \<and> (control self p_d_I = Ok (w0, w1, w2, w3) \<longrightarrow>
        0 \<le> w0 \<and> 0 \<le> w1 \<and> 0 \<le> w2 \<and> 0 \<le> w3
        \<and> (\<exists>R B_inv q_ref.
              from_quat_as_matrix
                (case s_quat (self_state self) of (q0, q1, q2, q3) \<Rightarrow> (q1, q2, q3, q0)) = Ok R
              \<and> linalg_inv4 (mixer_B self) = Ok B_inv
              \<and> reference_quat (desired_force self p_d_I) = Ok q_ref
              \<and> (w0, w1, w2, w3) =
                  motor_speeds B_inv
                    (max 0 (snd (snd (mat3_vec (transpose3 R) (desired_force self p_d_I)))))
                    (attitude_torque self (attitude_error q_ref (s_quat (self_state self)))
                       (s_omega (self_state self)))))
   \<and> motor_speeds B_inv thrust (tau0, tau1, tau2) =
       (sqrt (max (dot4 (fst B_inv) (thrust, tau0, tau1, tau2)) 0),
        sqrt (max (dot4 (fst (snd B_inv)) (thrust, tau0, tau1, tau2)) 0),
        sqrt (max (dot4 (fst (snd (snd B_inv))) (thrust, tau0, tau1, tau2)) 0),
        sqrt (max (dot4 (snd (snd (snd B_inv))) (thrust, tau0, tau1, tau2)) 0))"
proof -
  have a: "control self p_d_I = Ok (w0, w1, w2, w3) \<longrightarrow>
        0 \<le> w0 \<and> 0 \<le> w1 \<and> 0 \<le> w2 \<and> 0 \<le> w3"
  proof
    assume c: "control self p_d_I = Ok (w0, w1, w2, w3)"
    from control_result [OF c] obtain B_inv thrust tau
      where "motor_speeds B_inv thrust tau = (w0, w1, w2, w3)" by metis
    then show "0 \<le> w0 \<and> 0 \<le> w1 \<and> 0 \<le> w2 \<and> 0 \<le> w3" by (rule motor_speeds_nonneg)
  qed
  have b: "motor_speeds B_inv thrust (tau0, tau1, tau2) =
       (sqrt (max (dot4 (fst B_inv) (thrust, tau0, tau1, tau2)) 0),
        sqrt (max (dot4 (fst (snd B_inv)) (thrust, tau0, tau1, tau2)) 0),
        sqrt (max (dot4 (fst (snd (snd B_inv))) (thrust, tau0, tau1, tau2)) 0),
        sqrt (max (dot4 (snd (snd (snd B_inv))) (thrust, tau0, tau1, tau2)) 0))"
    by (cases B_inv rule: prod_cases4) (simp add: np_clip0_def)
  from a b control_defined [of self p_d_I] control_result [of self p_d_I "(w0, w1, w2, w3)"]
  show ?thesis by blast
qed


theorem control_speeds_nonnegative_witness:
  "(\<exists>w. control (wind_robot 2 pi) (1, 0, 0) = Ok w)
   \<and> control (wind_robot 2 pi) (1, 0, 0)
        = Ok (sqrt (4905 / 2), sqrt (4905 / 2), sqrt (4905 / 2), sqrt (4905 / 2))
   \<and> 0 \<le> sqrt (4905 / 2 :: real)
   \<and> s_quat (self_state (wind_robot 2 pi)) \<noteq> (0, 0, 0, 0)
   \<and> det4 (mixer_B (wind_robot 2 pi)) \<noteq> 0
   \<and> desired_force (wind_robot 2 pi) (1, 0, 0) \<noteq> (0, 0, 0)
   \<and> \<not> antiparallel (0, 0, 1) (desired_force (wind_robot 2 pi) (1, 0, 0))"
  using control_speeds_nonnegative
          [of "wind_robot 2 pi" "(1, 0, 0)" "sqrt (4905 / 2)" "sqrt (4905 / 2)"
              "sqrt (4905 / 2)" "sqrt (4905 / 2)"]
    control_fresh [of 2 pi]
  by simp

text \<open>
  The robot \<^verbatim>\<open>Robot()\<close> asked for the position \<open>(1, 0, -1.081)\<close>, straight below it:
  the desired force is \<open>(0, 0, -1)\<close>, not zero, and the speeds returned are \<^verbatim>\<open>nan\<close>.
\<close>

theorem control_nan_downward:
  "desired_force fresh_robot (1, 0, - (1081 / 1000)) = (0, 0, - 1)
   \<and> (0, 0, - 1) \<noteq> (0 :: real, 0 :: real, 0 :: real)
   \<and> control fresh_robot (1, 0, - (1081 / 1000)) = NaN"
proof -
  have f: "desired_force fresh_robot (1, 0, - (1081 / 1000)) = (0, 0, - 1)"
    by (simp add: desired_force_def fresh_robot_def)
  have q: "from_quat_as_matrix (case s_quat (self_state fresh_robot) of
      (q0, q1, q2, q3) \<Rightarrow> (q1, q2, q3, q0)) = Ok ((1, 0, 0), (0, 1, 0), (0, 0, 1))"
    by (simp add: fresh_robot_def from_quat_as_matrix_def linalg_norm4)
  have "det4 (mixer_B fresh_robot) \<noteq> 0"
    by (simp add: det4_mixer_B fresh_robot_def)
  then have "mixer_nan fresh_robot = NaN"
    by (simp add: mixer_nan_def linalg_inv4_def Let_def)
  then have "control fresh_robot (1, 0, - (1081 / 1000)) = NaN"
    unfolding control_def Let_def f reference_quat_down q by simp
  with f show ?thesis by simp
qed

subsection \<open>The rotor speeds of the data set\<close>

lemma update_omega_motors:
  "update self w dt = Ok self' \<Longrightarrow> self_omega_motors self' = self_omega_motors self"
  by (auto simp add: update_def Let_def split: outcome.splits prod.splits if_splits)

lemma update_wind_omega_motors:
  "update_wind self w dt = Ok self' \<Longrightarrow> self_omega_motors self' = self_omega_motors self"
  by (auto simp add: update_wind_def Let_def
        split: outcome.splits prod.splits if_splits option.splits)

lemma control_propellers_omega_motors:
  "control_propellers quad = Ok quad' \<Longrightarrow> self_omega_motors quad' = self_omega_motors quad"
  by (auto simp add: control_propellers_def Let_def dest: update_wind_omega_motors
        split: outcome.splits)

lemma data_loop_omega_motors:
  "data_loop n quad = Ok (quad', data, trajectory) \<Longrightarrow>
     self_omega_motors quad' = self_omega_motors quad \<and> length data = n
     \<and> length trajectory = n
     \<and> (\<forall>row \<in> set data. d_omega_motor row = self_omega_motors quad)"
proof (induction n arbitrary: quad quad' data trajectory)
  case 0
  then show ?case by simp
next
  case (Suc n)
  from Suc.prems obtain quad1 pos wind_force quad2 data2 traj2 where
    cp: "control_propellers quad = Ok quad1"
    and rest: "data_loop n quad1 = Ok (quad2, data2, traj2)"
    and res: "quad' = quad2"
       "data = \<lparr>d_vel = s_vel (self_state quad1), d_quat = s_quat (self_state quad1),
                d_omega_motor = self_omega_motors quad1, d_wind_force = wind_force\<rparr> # data2"
       "trajectory = pos # traj2"
    by (auto simp add: Let_def split: outcome.splits option.splits)
  have m1: "self_omega_motors quad1 = self_omega_motors quad"
    by (rule control_propellers_omega_motors [OF cp])
  from Suc.IH [OF rest] m1 res show ?case by simp
qed

lemma first_tick:
  "control_propellers (wind_robot wind angular_velocity)
     = Ok ((wind_robot wind angular_velocity)
             \<lparr>self_time := 1 / 200, self_phi := Some 0, self_wind_force := Some (0, 0, 0)\<rparr>)"
proof -
  have c: "control (wind_robot wind angular_velocity) (1, 0, 0)
     = Ok (sqrt (4905 / 2), sqrt (4905 / 2), sqrt (4905 / 2), sqrt (4905 / 2))"
    by (rule control_fresh)
  have t: "self_time (wind_robot wind angular_velocity) = 0"
    by (simp add: wind_robot_def fresh_robot_def)
  have u: "update_wind (wind_robot wind angular_velocity)
            (sqrt (4905 / 2), sqrt (4905 / 2), sqrt (4905 / 2), sqrt (4905 / 2)) (1 / 200)
     = Ok ((wind_robot wind angular_velocity)
             \<lparr>self_time := 1 / 200, self_phi := Some 0, self_wind_force := Some (0, 0, 0)\<rparr>)"
    by (simp add: update_wind_def wind_robot_def fresh_robot_def from_quat_as_matrix_def Let_def
       renormalize_def euler_step_def omega_dot_def q_dot_def linalg_norm4)
  show ?thesis
    by (simp add: control_propellers_def Let_def t c u dt_global_def)
qed

lemma first_tick_run:
  "training_run 1 wind angular_velocity
     = Ok ((wind_robot wind angular_velocity)
             \<lparr>self_time := 1 / 200, self_phi := Some 0, self_wind_force := Some (0, 0, 0)\<rparr>,
           [\<lparr>d_vel = (0, 0, 0), d_quat = (1, 0, 0, 0), d_omega_motor = (0, 0, 0, 0),
             d_wind_force = (0, 0, 0)\<rparr>],
           [[(5 / 4, 0, 0), (1, 1 / 4, 0), (3 / 4, 0, 0), (1, - (1 / 4), 0), (1, 0, 0),
             (1, 0, 1 / 20)]])"
proof -
  have g: "get_pos_full_quadcopter ((wind_robot wind angular_velocity)
             \<lparr>self_time := 1 / 200, self_phi := Some 0, self_wind_force := Some (0, 0, 0)\<rparr>)
        = Ok [(5 / 4, 0, 0), (1, 1 / 4, 0), (3 / 4, 0, 0), (1, - (1 / 4), 0), (1, 0, 0),
             (1, 0, 1 / 20)]"
    by (simp add: get_pos_full_quadcopter_def wind_robot_def fresh_robot_def
          from_quat_as_matrix_def linalg_norm4 Let_def)
  have w: "wind_robot wind angular_velocity
         = fresh_robot\<lparr>self_F0 := Some (wind, 0, 0), self_omega_w := Some angular_velocity\<rparr>"
    by (simp add: wind_robot_def)
  have "data_loop (Suc 0) (wind_robot wind angular_velocity) = Ok ((wind_robot wind angular_velocity)
             \<lparr>self_time := 1 / 200, self_phi := Some 0, self_wind_force := Some (0, 0, 0)\<rparr>,
           [\<lparr>d_vel = (0, 0, 0), d_quat = (1, 0, 0, 0), d_omega_motor = (0, 0, 0, 0),
             d_wind_force = (0, 0, 0)\<rparr>],
           [[(5 / 4, 0, 0), (1, 1 / 4, 0), (3 / 4, 0, 0), (1, - (1 / 4), 0), (1, 0, 0),
             (1, 0, 1 / 20)]])"
    by (simp add: first_tick g) (simp add: wind_robot_def fresh_robot_def)
  then show ?thesis
    by (simp add: training_run_def Robot_init_fresh w)
qed

lemma training_run_zero_speeds:
  assumes "training_run n wind angular_velocity = Ok (quad, data, trajectory)"
  shows "length data = n \<and> (\<forall>row \<in> set data. d_omega_motor row = (0, 0, 0, 0))"
proof -
  have "data_loop n (wind_robot wind angular_velocity) = Ok (quad, data, trajectory)"
    using assms by (simp add: training_run_def Robot_init_fresh wind_robot_def)
  from data_loop_omega_motors [OF this] show ?thesis
    by (simp add: wind_robot_def fresh_robot_def)
qed

text \<open>
  Claim C4. \<^verbatim>\<open>__init__\<close> sets \<^verbatim>\<open>omega_motors\<close> to four zeros; no step of \<^verbatim>\<open>update\<close>,
  \<^verbatim>\<open>update_wind\<close> or \<^verbatim>\<open>control_propellers\<close> changes it (and \<^verbatim>\<open>control\<close> returns the
  speeds only: it assigns no attribute). So every row of the data of a run of
  \<^verbatim>\<open>generate_training_data\<close> holds four zeros as its rotor speeds. They are not the
  speeds commanded: at the first tick of every run the controller commands four times
  \<open>sqrt (4905 / 2)\<close>, which is positive, and the row of that tick holds zeros.
\<close>

theorem omega_motors_never_written:
  "map_outcome self_omega_motors Robot_init = Ok (0, 0, 0, 0)
   \<and> (update self omegas_motor dt = Ok self1 \<longrightarrow>
        self_omega_motors self1 = self_omega_motors self)
   \<and> (update_wind self omegas_motor dt = Ok self2 \<longrightarrow>
        self_omega_motors self2 = self_omega_motors self)
   \<and> (control_propellers quad = Ok quad1 \<longrightarrow>
        self_omega_motors quad1 = self_omega_motors quad)
   \<and> (training_run n wind angular_velocity = Ok (quadcopter, data, trajectory) \<longrightarrow>
        length data = n \<and> (\<forall>row \<in> set data. d_omega_motor row = (0, 0, 0, 0)))
   \<and> (\<forall>run \<in> set generate_training_data. \<forall>quadcopter data trajectory.
        run = Ok (quadcopter, data, trajectory) \<longrightarrow>
          (\<forall>row \<in> set data. d_omega_motor row = (0, 0, 0, 0)))
   \<and> control (wind_robot wind angular_velocity)
        (cos (2 * pi * self_time (wind_robot wind angular_velocity) / (15 / 10) / 2),
         sin (2 * pi * self_time (wind_robot wind angular_velocity) / (15 / 10)), 0)
       = Ok (sqrt (4905 / 2), sqrt (4905 / 2), sqrt (4905 / 2), sqrt (4905 / 2))
   \<and> 0 < sqrt (4905 / 2 :: real)
   \<and> (\<exists>quadcopter row trajectory.
         training_run 1 wind angular_velocity = Ok (quadcopter, [row], trajectory)
         \<and> d_omega_motor row = (0, 0, 0, 0))"
proof -
  have init: "map_outcome self_omega_motors Robot_init = Ok (0, 0, 0, 0)"
    by (simp add: Robot_init_fresh fresh_robot_def)
  have gen: "\<forall>run \<in> set generate_training_data. \<forall>quadcopter data trajectory.
        run = Ok (quadcopter, data, trajectory) \<longrightarrow>
          (\<forall>row \<in> set data. d_omega_motor row = (0, 0, 0, 0))"
    unfolding generate_training_data_def using training_run_zero_speeds by auto
  have t0: "self_time (wind_robot wind angular_velocity) = 0"
    by (simp add: wind_robot_def fresh_robot_def)
  have first: "control (wind_robot wind angular_velocity)
        (cos (2 * pi * self_time (wind_robot wind angular_velocity) / (15 / 10) / 2),
         sin (2 * pi * self_time (wind_robot wind angular_velocity) / (15 / 10)), 0)
       = Ok (sqrt (4905 / 2), sqrt (4905 / 2), sqrt (4905 / 2), sqrt (4905 / 2))"
    by (simp add: t0 control_fresh)
  have pos: "0 < sqrt (4905 / 2 :: real)" by simp
  have row: "\<exists>quadcopter row trajectory.
         training_run 1 wind angular_velocity = Ok (quadcopter, [row], trajectory)
         \<and> d_omega_motor row = (0, 0, 0, 0)"
    using first_tick_run [of wind angular_velocity] by simp
  from init gen first pos row update_omega_motors [of self omegas_motor dt self1]
    update_wind_omega_motors [of self omegas_motor dt self2]
    control_propellers_omega_motors [of quad quad1]
    training_run_zero_speeds [of n wind angular_velocity quadcopter data trajectory]
  show ?thesis by blast
qed

theorem omega_motors_never_written_witness:
  "(\<exists>self1. update ((wind_robot 2 pi)\<lparr>self_time := 1 / 2\<rparr>) (55, 50, 50, 50) (1 / 200) = Ok self1
        \<and> self_omega_motors self1 = (0, 0, 0, 0))
   \<and> (\<exists>self2. update_wind ((wind_robot 2 pi)\<lparr>self_time := 1 / 2\<rparr>) (55, 50, 50, 50) (1 / 200)
          = Ok self2 \<and> self_omega_motors self2 = (0, 0, 0, 0))
   \<and> (\<exists>quad1. control_propellers (wind_robot 2 pi) = Ok quad1
          \<and> self_omega_motors quad1 = (0, 0, 0, 0))
   \<and> (\<exists>quadcopter data trajectory. training_run 1 2 pi = Ok (quadcopter, data, trajectory)
          \<and> length data = 1 \<and> map d_omega_motor data = [(0, 0, 0, 0)])"
  using omega_motors_never_written
          [of "(wind_robot 2 pi)\<lparr>self_time := 1 / 2\<rparr>" "(55, 50, 50, 50)" "1 / 200"
              "(wind_robot 2 pi)
                \<lparr>self_state := \<lparr>s_pos = (1, 0, 0), s_vel = (0, 0, 143 / 40000),
                                 s_quat = (1, 0, 0, 0), s_omega = (0, - (21 / 400), 21 / 20000)\<rparr>,
                 self_time := 101 / 200\<rparr>"
              "(wind_robot 2 pi)
                \<lparr>self_state := \<lparr>s_pos = (1, 0, 0), s_vel = (1 / 100, 0, 143 / 40000),
                                 s_quat = (1, 0, 0, 0), s_omega = (0, - (21 / 400), 21 / 20000)\<rparr>,
                 self_time := 101 / 200, self_phi := Some 0, self_wind_force := Some (2, 0, 0)\<rparr>"
              "wind_robot 2 pi"
              "(wind_robot 2 pi)
                \<lparr>self_time := 1 / 200, self_phi := Some 0, self_wind_force := Some (0, 0, 0)\<rparr>"
              1 2 pi
              "(wind_robot 2 pi)
                \<lparr>self_time := 1 / 200, self_phi := Some 0, self_wind_force := Some (0, 0, 0)\<rparr>"
              "[\<lparr>d_vel = (0, 0, 0), d_quat = (1, 0, 0, 0), d_omega_motor = (0, 0, 0, 0),
                 d_wind_force = (0, 0, 0)\<rparr>]"
              "[[(5 / 4, 0, 0), (1, 1 / 4, 0), (3 / 4, 0, 0), (1, - (1 / 4), 0), (1, 0, 0),
                 (1, 0, 1 / 20)]]"]
    update_example [of 2 pi] update_wind_example first_tick [of 2 pi] first_tick_run [of 2 pi]
  by (simp add: wind_robot_def fresh_robot_def)

end
